theory Spec2Isabelle
  imports Main "HOL-Library.Word"
begin

section \<open>Block layer: requests, I/O units and the request queue\<close>

text \<open>
  The model follows \<^verbatim>\<open>block/elevator.c\<close> and \<^verbatim>\<open>drivers/scsi/scsi_lib.c\<close> of the
  2.6.18 tree. Request objects live in a store indexed by their address; lists hold
  addresses, so that pointer comparisons such as \<^verbatim>\<open>q->last_merge == rq\<close> are
  comparisons of addresses. Sector numbers are 64-bit words (\<^verbatim>\<open>sector_t\<close>),
  the queue's counters are 32-bit words (\<^verbatim>\<open>unsigned int\<close>), so that the
  arithmetic wraps as it does in C.
\<close>

type_synonym sector_t = "64 word"
type_synonym rq_ptr = nat

text \<open>The bits of \<^verbatim>\<open>rq->flags\<close> the two files test or set.\<close>

datatype rq_flag =
    REQ_RW | REQ_FAILFAST | REQ_SORTED | REQ_SOFTBARRIER | REQ_HARDBARRIER
  | REQ_CMD | REQ_NOMERGE | REQ_STARTED | REQ_DONTPREP | REQ_QUEUED | REQ_ELVPRIV
  | REQ_BLOCK_PC | REQ_QUIET | REQ_ORDERED_COLOR

datatype data_dir = READ | WRITE

record request =
  flags :: "rq_flag set"
  sector :: sector_t
  nr_sectors :: "64 word"
  hard_nr_sectors :: "64 word"
  data_len :: "32 word"
  rq_disk :: "nat option"
  waiting :: "nat option"
  special :: "nat option"
  rq_errors :: "32 word"
  rq_sense :: bool
  sense_len :: "32 word"

datatype bio_flag = BIO_RW | BIO_RW_AHEAD | BIO_RW_BARRIER | BIO_RW_FAILFAST | BIO_RW_SYNC

text \<open>
  A \<^verbatim>\<open>struct bio\<close>, with \<^verbatim>\<open>bio->bi_bdev->bd_disk\<close> flattened into one field.
\<close>

record bio =
  bi_sector :: sector_t
  bi_size :: "32 word"
  bi_rw :: "bio_flag set"
  bi_bdev_bd_disk :: "nat option"

datatype elv_merge_ret = ELEVATOR_NO_MERGE | ELEVATOR_FRONT_MERGE | ELEVATOR_BACK_MERGE

datatype elv_where =
  ELEVATOR_INSERT_FRONT | ELEVATOR_INSERT_BACK | ELEVATOR_INSERT_SORT | ELEVATOR_INSERT_REQUEUE

subsection \<open>Header macros\<close>

text \<open>
  Modelled from the spec: the macros below belong to \<^verbatim>\<open>include/linux/blkdev.h\<close> and
  \<^verbatim>\<open>include/linux/bio.h\<close>, which the two files include. The spec's data model gives
  a request a direction, a sector range and the flag set; its merge rule makes a target
  ineligible once it is started or barrier-flagged. \<open>rq_mergeable\<close> is written as the
  2.6.18 header has it, which also excludes \<open>REQ_NOMERGE\<close> and requests that are not
  filesystem requests: that only narrows eligibility.
\<close>

definition rq_data_dir :: "request \<Rightarrow> data_dir" where
  "rq_data_dir rq = (if REQ_RW \<in> flags rq then WRITE else READ)"

definition bio_data_dir :: "bio \<Rightarrow> data_dir" where
  "bio_data_dir b = (if BIO_RW \<in> bi_rw b then WRITE else READ)"

definition bio_sectors :: "bio \<Rightarrow> sector_t" where
  "bio_sectors b = ucast (drop_bit 9 (bi_size b))"

definition blk_fs_request :: "request \<Rightarrow> bool" where
  "blk_fs_request rq = (REQ_CMD \<in> flags rq)"

definition blk_pc_request :: "request \<Rightarrow> bool" where
  "blk_pc_request rq = (REQ_BLOCK_PC \<in> flags rq)"

definition blk_noretry_request :: "request \<Rightarrow> bool" where
  "blk_noretry_request rq = (REQ_FAILFAST \<in> flags rq)"

definition blk_rq_started :: "request \<Rightarrow> bool" where
  "blk_rq_started rq = (REQ_STARTED \<in> flags rq)"

definition blk_account_rq :: "request \<Rightarrow> bool" where
  "blk_account_rq rq = (blk_rq_started rq \<and> blk_fs_request rq)"

definition blk_sorted_rq :: "request \<Rightarrow> bool" where
  "blk_sorted_rq rq = (REQ_SORTED \<in> flags rq)"

definition blk_barrier_rq :: "request \<Rightarrow> bool" where
  "blk_barrier_rq rq = (REQ_HARDBARRIER \<in> flags rq)"

definition RQ_NOMERGE_FLAGS :: "rq_flag set" where
  "RQ_NOMERGE_FLAGS = {REQ_NOMERGE, REQ_STARTED, REQ_HARDBARRIER, REQ_SOFTBARRIER}"

definition rq_mergeable :: "request \<Rightarrow> bool" where
  "rq_mergeable rq = (flags rq \<inter> RQ_NOMERGE_FLAGS = {} \<and> blk_fs_request rq)"

definition rq_end_sector :: "request \<Rightarrow> sector_t" where
  "rq_end_sector rq = sector rq + nr_sectors rq"

subsection \<open>Merge eligibility (elevator.c, lines 48 to 98)\<close>

definition elv_rq_merge_ok :: "request \<Rightarrow> bio \<Rightarrow> bool" where
  "elv_rq_merge_ok rq b =
     (if \<not> rq_mergeable rq then False
      else if bio_data_dir b \<noteq> rq_data_dir rq then False
      else if rq_disk rq = bi_bdev_bd_disk b \<and> waiting rq = None \<and> special rq = None then True
      else False)"

definition elv_try_merge :: "request \<Rightarrow> bio \<Rightarrow> elv_merge_ret" where
  "elv_try_merge rq b =
     (if elv_rq_merge_ok rq b then
        (if sector rq + nr_sectors rq = bi_sector b then ELEVATOR_BACK_MERGE
         else if sector rq - bio_sectors b = bi_sector b then ELEVATOR_FRONT_MERGE
         else ELEVATOR_NO_MERGE)
      else ELEVATOR_NO_MERGE)"

subsection \<open>The request queue and what it calls\<close>

datatype queue_flag = QUEUE_FLAG_PLUGGED | QUEUE_FLAG_ELVSWITCH | QUEUE_FLAG_STOPPED

text \<open>
  Calls that leave the two files (the driver's strategy routine, the plugging routines
  and the barrier sequencer of \<^verbatim>\<open>ll_rw_blk.c\<close>) are recorded, in order, in the
  queue's \<open>calls\<close> log, so that a statement can say that such a call was made.
\<close>

datatype ext_call =
    Call_request_fn
  | Call_generic_unplug_device
  | Call_blk_remove_plug
  | Call_blk_plug_device
  | Call_blk_ordered_complete_seq nat int
  | Call_end_that_request_chunk rq_ptr int "32 word"
  | Call_end_that_request_last rq_ptr int

text \<open>
  An \<^verbatim>\<open>elevator_t\<close> object as far as the switch code looks at it: its type, whether
  \<^verbatim>\<open>e->ops\<close> is still set (\<open>elevator_exit\<close> clears it), and its kobject (reference
  count, and whether it has been added to sysfs). The queue holds the address of the
  attached object (\<^verbatim>\<open>q->elevator\<close>); \<open>elv_objs\<close> is the store of allocated
  objects, \<open>None\<close> at an address that is free. The private data of the attached
  policy (\<^verbatim>\<open>q->elevator->elevator_data\<close>) is the queue field \<open>elevator_data\<close>.
\<close>

record elevator_obj =
  eo_type :: nat
  eo_ops_set :: bool
  eo_kref :: nat
  eo_added :: bool

record 'e request_queue =
  rqs :: "rq_ptr \<Rightarrow> request"
  queue_head :: "rq_ptr list"
  last_merge :: "rq_ptr option"
  boundary_rq :: "rq_ptr option"
  end_sector :: sector_t
  nr_sorted :: "32 word"
  in_flight :: "32 word"
  ordseq :: "32 word"
  ordcolor :: bool
  unplug_thresh :: int
  rq_count :: "data_dir \<Rightarrow> int"
  rq_elvpriv :: int
  queue_flags :: "queue_flag set"
  elevator :: nat
  elevator_data :: 'e
  elv_objs :: "nat \<Rightarrow> elevator_obj option"
  calls :: "ext_call list"

text \<open>
  \<^verbatim>\<open>struct elevator_ops\<close>: the policy's function pointers. A pointer that may be NULL
  is an option. The policy is code outside the two files, so each is a parameter.
\<close>

record 'e elevator_ops =
  elevator_merge_fn :: "('e request_queue \<Rightarrow> bio \<Rightarrow> elv_merge_ret \<times> rq_ptr option) option"
  elevator_merged_fn :: "('e request_queue \<Rightarrow> rq_ptr \<Rightarrow> 'e request_queue) option"
  elevator_merge_req_fn :: "('e request_queue \<Rightarrow> rq_ptr \<Rightarrow> rq_ptr \<Rightarrow> 'e request_queue) option"
  elevator_dispatch_fn :: "'e request_queue \<Rightarrow> int \<Rightarrow> 'e request_queue \<times> int"
  elevator_add_req_fn :: "'e request_queue \<Rightarrow> rq_ptr \<Rightarrow> 'e request_queue"
  elevator_activate_req_fn :: "('e request_queue \<Rightarrow> rq_ptr \<Rightarrow> 'e request_queue) option"
  elevator_deactivate_req_fn :: "('e request_queue \<Rightarrow> rq_ptr \<Rightarrow> 'e request_queue) option"
  elevator_completed_req_fn :: "('e request_queue \<Rightarrow> rq_ptr \<Rightarrow> 'e request_queue) option"
  elevator_init_fn :: "'e request_queue \<Rightarrow> 'e option"

text \<open>
  The routines of \<^verbatim>\<open>ll_rw_blk.c\<close> and the driver's callbacks
  (\<^verbatim>\<open>q->request_fn\<close>, \<^verbatim>\<open>q->prep_rq_fn\<close>) that elevator.c calls: parameters as well.
  \<open>blk_do_ordered\<close> returns the queue, the request it leaves in \<^verbatim>\<open>*rqp\<close> and its
  return value.
\<close>

record 'e blk_ext =
  request_fn :: "'e request_queue \<Rightarrow> 'e request_queue"
  prep_rq_fn :: "('e request_queue \<Rightarrow> rq_ptr \<Rightarrow> 'e request_queue \<times> int) option"
  blk_plug_device :: "'e request_queue \<Rightarrow> 'e request_queue"
  blk_remove_plug :: "'e request_queue \<Rightarrow> 'e request_queue"
  generic_unplug_device :: "'e request_queue \<Rightarrow> 'e request_queue"
  blk_ordered_req_seq :: "'e request_queue \<Rightarrow> rq_ptr \<Rightarrow> nat"
  blk_ordered_cur_seq :: "'e request_queue \<Rightarrow> nat"
  blk_ordered_complete_seq :: "'e request_queue \<Rightarrow> nat \<Rightarrow> int \<Rightarrow> 'e request_queue"
  blk_do_ordered :: "'e request_queue \<Rightarrow> rq_ptr \<Rightarrow> 'e request_queue \<times> rq_ptr option \<times> int"
  end_that_request_chunk :: "'e request_queue \<Rightarrow> rq_ptr \<Rightarrow> int \<Rightarrow> 32 word \<Rightarrow> 'e request_queue"
  end_that_request_last :: "'e request_queue \<Rightarrow> rq_ptr \<Rightarrow> int \<Rightarrow> 'e request_queue"
  msleep_unlocked :: "'e request_queue \<Rightarrow> 'e request_queue"
  kmalloc_elevator :: "'e request_queue \<Rightarrow> nat option"
  kobject_add_error :: "'e request_queue \<Rightarrow> nat \<Rightarrow> int"

definition call_ext ::
  "ext_call \<Rightarrow> ('e request_queue \<Rightarrow> 'e request_queue) \<Rightarrow> 'e request_queue \<Rightarrow> 'e request_queue" where
  "call_ext c f q = (f q)\<lparr>calls := calls q @ [c]\<rparr>"

text \<open>How a call of elevator.c can end without returning a queue.\<close>

datatype blk_fault = BUG | Fuel_exhausted | Bad_list_entry

definition QUEUE_ORDSEQ_DRAIN :: nat where
  "QUEUE_ORDSEQ_DRAIN = 2"

definition BLKPREP_OK :: int where "BLKPREP_OK = 0"
definition BLKPREP_KILL :: int where "BLKPREP_KILL = 1"
definition BLKPREP_DEFER :: int where "BLKPREP_DEFER = 2"

definition blk_queue_plugged :: "'e request_queue \<Rightarrow> bool" where
  "blk_queue_plugged q = (QUEUE_FLAG_PLUGGED \<in> queue_flags q)"

text \<open>\<^verbatim>\<open>rq->flags |= f\<close> and \<^verbatim>\<open>rq->flags &= ~f\<close> on the request at an address.\<close>

definition rq_set_flag :: "rq_ptr \<Rightarrow> rq_flag \<Rightarrow> 'e request_queue \<Rightarrow> 'e request_queue" where
  "rq_set_flag rq f q = q\<lparr>rqs := (rqs q)(rq := (rqs q rq)\<lparr>flags := insert f (flags (rqs q rq))\<rparr>)\<rparr>"

definition rq_clear_flag :: "rq_ptr \<Rightarrow> rq_flag \<Rightarrow> 'e request_queue \<Rightarrow> 'e request_queue" where
  "rq_clear_flag rq f q = q\<lparr>rqs := (rqs q)(rq := (rqs q rq)\<lparr>flags := flags (rqs q rq) - {f}\<rparr>)\<rparr>"

subsection \<open>elv_dispatch_sort, elv_merge, elv_merge_requests\<close>

text \<open>
  The scan of \<open>elv_dispatch_sort\<close> walks the dispatch list from its tail
  (\<^verbatim>\<open>list_for_each_prev\<close>) and inserts after the entry it stops at; the function below
  works on the reversed list.
\<close>

fun dispatch_sort_scan ::
  "(rq_ptr \<Rightarrow> request) \<Rightarrow> sector_t \<Rightarrow> rq_ptr \<Rightarrow> rq_ptr list \<Rightarrow> rq_ptr list" where
  "dispatch_sort_scan h boundary rq [] = [rq]"
| "dispatch_sort_scan h boundary rq (pos # rest) =
     (if flags (h pos) \<inter> {REQ_SOFTBARRIER, REQ_HARDBARRIER, REQ_STARTED} \<noteq> {} then rq # pos # rest
      else if sector (h rq) \<ge> boundary \<and> sector (h pos) < boundary
        then pos # dispatch_sort_scan h boundary rq rest
      else if \<not> sector (h rq) \<ge> boundary \<and> sector (h pos) \<ge> boundary then rq # pos # rest
      else if sector (h rq) \<ge> sector (h pos) then rq # pos # rest
      else pos # dispatch_sort_scan h boundary rq rest)"

definition elv_dispatch_sort :: "'e request_queue \<Rightarrow> rq_ptr \<Rightarrow> 'e request_queue" where
  "elv_dispatch_sort q rq =
     (let q1 = (if last_merge q = Some rq then q\<lparr>last_merge := None\<rparr> else q);
          q2 = q1\<lparr>nr_sorted := nr_sorted q1 - 1\<rparr>;
          boundary = end_sector q2
      in q2\<lparr>queue_head := rev (dispatch_sort_scan (rqs q2) boundary rq (rev (queue_head q2)))\<rparr>)"


definition elv_merged_request ::
  "'e elevator_ops \<Rightarrow> 'e request_queue \<Rightarrow> rq_ptr \<Rightarrow> 'e request_queue" where
  "elv_merged_request e q rq =
     (let q1 = (case elevator_merged_fn e of Some f \<Rightarrow> f q rq | None \<Rightarrow> q)
      in q1\<lparr>last_merge := Some rq\<rparr>)"

definition elv_merge_requests ::
  "'e elevator_ops \<Rightarrow> 'e request_queue \<Rightarrow> rq_ptr \<Rightarrow> rq_ptr \<Rightarrow> 'e request_queue" where
  "elv_merge_requests e q rq nxt =
     (let q1 = (case elevator_merge_req_fn e of Some f \<Rightarrow> f q rq nxt | None \<Rightarrow> q);
          q2 = q1\<lparr>nr_sorted := nr_sorted q1 - 1\<rparr>
      in q2\<lparr>last_merge := Some rq\<rparr>)"

subsection \<open>elv_drain_elevator, elv_insert, the locked add, elv_requeue_request\<close>

text \<open>
  \<^verbatim>\<open>while (dispatch_fn(q, 1));\<close> runs as long as the policy says it moved a request.
  The policy is a parameter, so the loop takes fuel; \<open>None\<close> is fuel running out.
  After the loop the C code only prints a diagnostic.
\<close>

fun elv_drain_elevator ::
  "'e elevator_ops \<Rightarrow> nat \<Rightarrow> 'e request_queue \<Rightarrow> 'e request_queue option" where
  "elv_drain_elevator e 0 q = None"
| "elv_drain_elevator e (Suc n) q =
     (case elevator_dispatch_fn e q 1 of
        (q', r) \<Rightarrow> if r \<noteq> 0 then elv_drain_elevator e n q' else Some q')"

text \<open>
  The REQUEUE scan (\<^verbatim>\<open>list_for_each\<close> from the head): stop at the first entry
  whose sequence is not below \<open>oseq\<close> and insert before it (\<^verbatim>\<open>list_add_tail\<close>),
  at the tail when there is none.
\<close>

fun requeue_scan :: "(rq_ptr \<Rightarrow> nat) \<Rightarrow> nat \<Rightarrow> rq_ptr \<Rightarrow> rq_ptr list \<Rightarrow> rq_ptr list" where
  "requeue_scan seq oseq rq [] = [rq]"
| "requeue_scan seq oseq rq (pos # rest) =
     (if oseq \<le> seq pos then rq # pos # rest else pos # requeue_scan seq oseq rq rest)"

text \<open>
  The code of \<open>elv_insert\<close> after its switch: \<^verbatim>\<open>nrq\<close> is an \<^verbatim>\<open>int\<close> computed
  from two \<^verbatim>\<open>int\<close> counts and the \<^verbatim>\<open>unsigned int\<close> in-flight count, so the
  subtraction is done modulo \<open>2 ^ 32\<close> and read back as signed.
\<close>

definition elv_insert_nrq :: "'e request_queue \<Rightarrow> int" where
  "elv_insert_nrq q =
     sint ((word_of_int (rq_count q READ + rq_count q WRITE) :: 32 word) - in_flight q)"

definition elv_insert_unplug :: "'e blk_ext \<Rightarrow> bool \<Rightarrow> 'e request_queue \<Rightarrow> 'e request_queue" where
  "elv_insert_unplug x unplug_it q =
     (if unplug_it \<and> blk_queue_plugged q then
        (if elv_insert_nrq q \<ge> unplug_thresh q
         then call_ext Call_generic_unplug_device (generic_unplug_device x) q
         else q)
      else q)"

definition elv_insert ::
  "'e elevator_ops \<Rightarrow> 'e blk_ext \<Rightarrow> nat \<Rightarrow> 'e request_queue \<Rightarrow> rq_ptr \<Rightarrow> elv_where
     \<Rightarrow> blk_fault + 'e request_queue" where
  "elv_insert e x fuel q rq wh =
     (case wh of
        ELEVATOR_INSERT_FRONT \<Rightarrow>
          (let q1 = rq_set_flag rq REQ_SOFTBARRIER q;
               q2 = q1\<lparr>queue_head := rq # queue_head q1\<rparr>
           in Inr (elv_insert_unplug x True q2))
      | ELEVATOR_INSERT_BACK \<Rightarrow>
          (let q1 = rq_set_flag rq REQ_SOFTBARRIER q
           in case elv_drain_elevator e fuel q1 of
                None \<Rightarrow> Inl Fuel_exhausted
              | Some q2 \<Rightarrow>
                  (let q3 = q2\<lparr>queue_head := queue_head q2 @ [rq]\<rparr>;
                       q4 = call_ext Call_blk_remove_plug (blk_remove_plug x) q3;
                       q5 = call_ext Call_request_fn (request_fn x) q4
                   in Inr (elv_insert_unplug x True q5)))
      | ELEVATOR_INSERT_SORT \<Rightarrow>
          (if \<not> blk_fs_request (rqs q rq) then Inl BUG
           else
             (let q1 = rq_set_flag rq REQ_SORTED q;
                  q2 = q1\<lparr>nr_sorted := nr_sorted q1 + 1\<rparr>;
                  q3 = (if last_merge q2 = None \<and> rq_mergeable (rqs q2 rq)
                        then q2\<lparr>last_merge := Some rq\<rparr> else q2);
                  q4 = elevator_add_req_fn e q3 rq
              in Inr (elv_insert_unplug x True q4)))
      | ELEVATOR_INSERT_REQUEUE \<Rightarrow>
          (let q1 = rq_set_flag rq REQ_SOFTBARRIER q
           in if ordseq q1 = 0
              then Inr (elv_insert_unplug x True (q1\<lparr>queue_head := rq # queue_head q1\<rparr>))
              else
                (let oseq = blk_ordered_req_seq x q1 rq;
                     q2 = q1\<lparr>queue_head :=
                            requeue_scan (blk_ordered_req_seq x q1) oseq rq (queue_head q1)\<rparr>
                 in Inr (elv_insert_unplug x False q2))))"

text \<open>
  \<^verbatim>\<open>__elv_add_request\<close>: an Isabelle name cannot start with an underscore, so the
  two leading underscores of a C name are written \<open>uu_\<close>. The function settles the
  insertion point (\<open>elv_add_where\<close>) and hands over to \<open>elv_insert\<close>.
\<close>

definition elv_add_where ::
  "'e request_queue \<Rightarrow> rq_ptr \<Rightarrow> elv_where \<Rightarrow> 'e request_queue \<times> elv_where" where
  "elv_add_where q rq wh =
     (let q1 = (if ordcolor q then rq_set_flag rq REQ_ORDERED_COLOR q else q)
      in if flags (rqs q1 rq) \<inter> {REQ_SOFTBARRIER, REQ_HARDBARRIER} \<noteq> {} then
           (let q2 = (if blk_barrier_rq (rqs q1 rq) then q1\<lparr>ordcolor := \<not> ordcolor q1\<rparr> else q1);
                wh2 = (if wh = ELEVATOR_INSERT_SORT then ELEVATOR_INSERT_BACK else wh);
                q3 = (if blk_fs_request (rqs q2 rq)
                      then q2\<lparr>end_sector := rq_end_sector (rqs q2 rq), boundary_rq := Some rq\<rparr>
                      else q2)
            in (q3, wh2))
         else if REQ_ELVPRIV \<notin> flags (rqs q1 rq) \<and> wh = ELEVATOR_INSERT_SORT
           then (q1, ELEVATOR_INSERT_BACK)
         else (q1, wh))"

definition uu_elv_add_request ::
  "'e elevator_ops \<Rightarrow> 'e blk_ext \<Rightarrow> nat \<Rightarrow> 'e request_queue \<Rightarrow> rq_ptr \<Rightarrow> elv_where \<Rightarrow> bool
     \<Rightarrow> blk_fault + 'e request_queue" where
  "uu_elv_add_request e x fuel q rq wh plug =
     (case elv_add_where q rq wh of
        (q1, wh1) \<Rightarrow>
          (let q2 = (if plug then call_ext Call_blk_plug_device (blk_plug_device x) q1 else q1)
           in elv_insert e x fuel q2 rq wh1))"

text \<open>
  \<open>elv_requeue_request\<close>: the accounting (\<open>elv_requeue_account\<close>), then the started
  flag is cleared and the request goes to \<open>elv_insert\<close>, which marks it as a soft
  barrier first (\<open>elv_requeue_marked\<close> is the queue at that point).
\<close>

definition elv_requeue_account ::
  "'e elevator_ops \<Rightarrow> 'e request_queue \<Rightarrow> rq_ptr \<Rightarrow> 'e request_queue" where
  "elv_requeue_account e q rq =
     (if blk_account_rq (rqs q rq) then
        (let qa = q\<lparr>in_flight := in_flight q - 1\<rparr>
         in if blk_sorted_rq (rqs qa rq) then
              (case elevator_deactivate_req_fn e of Some f \<Rightarrow> f qa rq | None \<Rightarrow> qa)
            else qa)
      else q)"

definition elv_requeue_request ::
  "'e elevator_ops \<Rightarrow> 'e blk_ext \<Rightarrow> 'e request_queue \<Rightarrow> rq_ptr \<Rightarrow> blk_fault + 'e request_queue" where
  "elv_requeue_request e x q rq =
     (let q1 = elv_requeue_account e q rq;
          q2 = rq_clear_flag rq REQ_STARTED q1
      in elv_insert e x 0 q2 rq ELEVATOR_INSERT_REQUEUE)"

definition elv_requeue_marked ::
  "'e elevator_ops \<Rightarrow> 'e request_queue \<Rightarrow> rq_ptr \<Rightarrow> 'e request_queue" where
  "elv_requeue_marked e q rq =
     rq_set_flag rq REQ_SOFTBARRIER (rq_clear_flag rq REQ_STARTED (elv_requeue_account e q rq))"

subsection \<open>Dispatch selection: elv_dequeue_request and elv_next_request\<close>

definition elv_dequeue_request :: "'e request_queue \<Rightarrow> rq_ptr \<Rightarrow> blk_fault + 'e request_queue" where
  "elv_dequeue_request q rq =
     (if rq \<notin> set (queue_head q) then Inl BUG
      else
        (let q1 = q\<lparr>queue_head := remove1 rq (queue_head q)\<rparr>
         in if blk_account_rq (rqs q1 rq) then Inr (q1\<lparr>in_flight := in_flight q1 + 1\<rparr>)
            else Inr q1))"

text \<open>
  \<^verbatim>\<open>__elv_next_request\<close>: the two nested loops as one recursion. While the dispatch
  list is not empty its head goes through \<open>blk_do_ordered\<close>; when it is empty the policy
  is asked to move a request over.
\<close>

fun uu_elv_next_request ::
  "'e elevator_ops \<Rightarrow> 'e blk_ext \<Rightarrow> nat \<Rightarrow> 'e request_queue
     \<Rightarrow> blk_fault + ('e request_queue \<times> rq_ptr option)" where
  "uu_elv_next_request e x 0 q = Inl Fuel_exhausted"
| "uu_elv_next_request e x (Suc n) q =
     (case queue_head q of
        rq # _ \<Rightarrow>
          (case blk_do_ordered x q rq of
             (q', rq', r) \<Rightarrow> if r \<noteq> 0 then Inr (q', rq') else uu_elv_next_request e x n q')
      | [] \<Rightarrow>
          (case elevator_dispatch_fn e q 0 of
             (q', r) \<Rightarrow> if r = 0 then Inr (q', None) else uu_elv_next_request e x n q'))"

text \<open>The first half of an iteration of \<open>elv_next_request\<close>: marking and the boundary.\<close>

definition elv_next_request_start ::
  "'e elevator_ops \<Rightarrow> 'e request_queue \<Rightarrow> rq_ptr \<Rightarrow> 'e request_queue" where
  "elv_next_request_start e q1 rq =
     (let q2 = (if REQ_STARTED \<notin> flags (rqs q1 rq) then
                  (let qa = (if blk_sorted_rq (rqs q1 rq) then
                               (case elevator_activate_req_fn e of
                                  Some f \<Rightarrow> f q1 rq
                                | None \<Rightarrow> q1)
                             else q1)
                   in rq_set_flag rq REQ_STARTED qa)
                else q1)
      in if boundary_rq q2 = None \<or> boundary_rq q2 = Some rq
         then q2\<lparr>end_sector := rq_end_sector (rqs q2 rq), boundary_rq := None\<rparr>
         else q2)"

text \<open>The \<^verbatim>\<open>BLKPREP_KILL\<close> branch up to the end of the iteration.\<close>

definition elv_next_request_kill ::
  "'e blk_ext \<Rightarrow> 'e request_queue \<Rightarrow> rq_ptr \<Rightarrow> blk_fault + 'e request_queue" where
  "elv_next_request_kill x q rq =
     (let shifted = (ucast (push_bit 9 (hard_nr_sectors (rqs q rq))) :: 32 word);
          nr_bytes = (if shifted = 0 then data_len (rqs q rq) else shifted)
      in case elv_dequeue_request q rq of
           Inl f \<Rightarrow> Inl f
         | Inr q1 \<Rightarrow>
             (let q2 = rq_set_flag rq REQ_QUIET q1;
                  q3 = call_ext (Call_end_that_request_chunk rq 0 nr_bytes)
                         (\<lambda>q. end_that_request_chunk x q rq 0 nr_bytes) q2
              in Inr (call_ext (Call_end_that_request_last rq 0)
                        (\<lambda>q. end_that_request_last x q rq 0) q3)))"

fun elv_next_request ::
  "'e elevator_ops \<Rightarrow> 'e blk_ext \<Rightarrow> nat \<Rightarrow> 'e request_queue
     \<Rightarrow> blk_fault + ('e request_queue \<times> rq_ptr option)" where
  "elv_next_request e x 0 q = Inl Fuel_exhausted"
| "elv_next_request e x (Suc n) q =
     (case uu_elv_next_request e x (Suc n) q of
        Inl f \<Rightarrow> Inl f
      | Inr (q1, None) \<Rightarrow> Inr (q1, None)
      | Inr (q1, Some rq) \<Rightarrow>
          (let q3 = elv_next_request_start e q1 rq
           in if REQ_DONTPREP \<in> flags (rqs q3 rq) then Inr (q3, Some rq)
              else
                (case prep_rq_fn x of
                   None \<Rightarrow> Inr (q3, Some rq)
                 | Some prep \<Rightarrow>
                     (case prep q3 rq of
                        (q4, ret) \<Rightarrow>
                          if ret = BLKPREP_OK then Inr (q4, Some rq)
                          else if ret = BLKPREP_DEFER then Inr (q4, None)
                          else if ret = BLKPREP_KILL then
                            (case elv_next_request_kill x q4 rq of
                               Inl f \<Rightarrow> Inl f
                             | Inr q5 \<Rightarrow> elv_next_request e x n q5)
                          else Inr (q4, Some rq)))))"

subsection \<open>elv_completed_request\<close>

text \<open>
  The accounting half, then the barrier check. \<^verbatim>\<open>list_entry_rq(q->queue_head.next)\<close>
  on an empty dispatch list is not a request; the code reads it only after the two
  tests before it in the conjunction hold, and the model makes that read a fault.
\<close>

definition elv_completed_account ::
  "'e elevator_ops \<Rightarrow> 'e request_queue \<Rightarrow> rq_ptr \<Rightarrow> 'e request_queue" where
  "elv_completed_account e q rq =
     (if blk_account_rq (rqs q rq) then
        (let qa = q\<lparr>in_flight := in_flight q - 1\<rparr>
         in if blk_sorted_rq (rqs qa rq) then
              (case elevator_completed_req_fn e of Some f \<Rightarrow> f qa rq | None \<Rightarrow> qa)
            else qa)
      else q)"

definition elv_completed_request ::
  "'e elevator_ops \<Rightarrow> 'e blk_ext \<Rightarrow> 'e request_queue \<Rightarrow> rq_ptr \<Rightarrow> blk_fault + 'e request_queue" where
  "elv_completed_request e x q rq =
     (let q1 = elv_completed_account e q rq
      in if ordseq q1 \<noteq> 0 then
           (if in_flight q1 = 0 \<and> blk_ordered_cur_seq x q1 = QUEUE_ORDSEQ_DRAIN then
              (case queue_head q1 of
                 [] \<Rightarrow> Inl Bad_list_entry
               | first_rq # _ \<Rightarrow>
                   if blk_ordered_req_seq x q1 first_rq > QUEUE_ORDSEQ_DRAIN then
                     (let q2 = call_ext (Call_blk_ordered_complete_seq QUEUE_ORDSEQ_DRAIN 0)
                                 (\<lambda>q. blk_ordered_complete_seq x q QUEUE_ORDSEQ_DRAIN 0) q1
                      in Inr (call_ext Call_request_fn (request_fn x) q2))
                   else Inr q1)
            else Inr q1)
         else Inr q1)"

subsection \<open>The policy switch (elevator.c, lines 192 to 273 and 836 to 995)\<close>











section \<open>SCSI mid-layer: admission, dispatch and completion (scsi_lib.c)\<close>

text \<open>
  The counters of a device and of a host are unsigned in C; the code below never takes
  one below zero without having raised it first, and they are natural numbers here.
  \<open>can_queue\<close> is an \<^verbatim>\<open>int\<close>. A device is named by its index; the host's
  starvation list holds indices, and \<^verbatim>\<open>list_empty(&sdev->starved_entry)\<close> is the
  device not being on that list.
\<close>

record scsi_device =
  device_busy :: nat
  queue_depth :: nat
  device_blocked :: nat
  single_lun :: bool
  removable :: bool
  changed :: bool
  use_10_for_rw :: bool
  sdev_online :: bool
  sdev_target :: nat

record Scsi_Host =
  host_busy :: nat
  can_queue :: int
  host_blocked :: nat
  host_self_blocked :: bool
  host_in_recovery :: bool
  starved_list :: "nat list"

definition scsi_dev_queue_ready ::
  "'e blk_ext \<Rightarrow> 'e request_queue \<Rightarrow> scsi_device \<Rightarrow> int \<times> 'e request_queue \<times> scsi_device" where
  "scsi_dev_queue_ready x q sd =
     (if device_busy sd \<ge> queue_depth sd then (0, q, sd)
      else if device_busy sd = 0 \<and> device_blocked sd \<noteq> 0 then
        (let sd1 = sd\<lparr>device_blocked := device_blocked sd - 1\<rparr>
         in if device_blocked sd1 = 0 then
              (if device_blocked sd1 \<noteq> 0 then (0, q, sd1) else (1, q, sd1))
            else (0, call_ext Call_blk_plug_device (blk_plug_device x) q, sd1))
      else if device_blocked sd \<noteq> 0 then (0, q, sd)
      else (1, q, sd))"

definition scsi_host_queue_ready ::
  "'e blk_ext \<Rightarrow> 'e request_queue \<Rightarrow> Scsi_Host \<Rightarrow> nat \<Rightarrow> int \<times> 'e request_queue \<times> Scsi_Host" where
  "scsi_host_queue_ready x q sh d =
     (if host_in_recovery sh then (0, q, sh)
      else
        (let counted =
               (if host_busy sh = 0 \<and> host_blocked sh \<noteq> 0 then
                  (let sh1 = sh\<lparr>host_blocked := host_blocked sh - 1\<rparr>
                   in if host_blocked sh1 = 0 then (False, q, sh1)
                      else (True, call_ext Call_blk_plug_device (blk_plug_device x) q, sh1))
                else (False, q, sh))
         in case counted of
              (stop, q1, sh1) \<Rightarrow>
                if stop then (0, q1, sh1)
                else if (can_queue sh1 > 0 \<and> int (host_busy sh1) \<ge> can_queue sh1)
                        \<or> host_blocked sh1 \<noteq> 0 \<or> host_self_blocked sh1 then
                  (0, q1,
                   if d \<notin> set (starved_list sh1)
                   then sh1\<lparr>starved_list := starved_list sh1 @ [d]\<rparr> else sh1)
                else
                  (1, q1,
                   if d \<in> set (starved_list sh1)
                   then sh1\<lparr>starved_list := remove1 d (starved_list sh1)\<rparr> else sh1)))"

subsection \<open>The host, its devices and their queues\<close>

datatype scsi_call =
    Call_scsi_dispatch_cmd nat rq_ptr
  | Call_blk_run_queue nat
  | Call_scsi_done nat rq_ptr
  | Call_scsi_put_command nat
  | Call_w_end_that_request_chunk nat rq_ptr int "32 word"
  | Call_w_end_that_request_last nat rq_ptr int

text \<open>
  A command as \<open>scsi_io_completion\<close> reads it: \<open>cmnd0\<close> is \<^verbatim>\<open>cmd->cmnd[0]\<close>,
  \<open>sense_buffer7\<close> is \<^verbatim>\<open>cmd->sense_buffer[7]\<close>.
\<close>

record scsi_sense_hdr =
  response_code :: "8 word"
  sense_key :: "8 word"
  asc :: "8 word"
  ascq :: "8 word"

record scsi_cmnd =
  cmd_result :: "32 word"
  request_bufflen :: "32 word"
  cmnd0 :: "8 word"
  cmd_resid :: "32 word"
  sense_buffer7 :: "8 word"
  cmd_request :: rq_ptr
  cmd_device :: nat

record 'e scsi_world =
  shost :: Scsi_Host
  sdevs :: "nat \<Rightarrow> scsi_device"
  squeues :: "nat \<Rightarrow> 'e request_queue"
  squeuedata :: "nat \<Rightarrow> bool"
  starget_sdev_user :: "nat \<Rightarrow> nat option"
  starget_devices :: "nat \<Rightarrow> nat list"
  slog :: "scsi_call list"

text \<open>
  What scsi_lib.c calls in the low-level driver, in scsi.c and in ll_rw_blk.c. The
  chunk routine returns whether part of the request is left.
\<close>

record 'e scsi_ext =
  scsi_dispatch_cmd :: "'e scsi_world \<Rightarrow> nat \<Rightarrow> rq_ptr \<Rightarrow> 'e scsi_world \<times> int"
  blk_run_queue :: "'e scsi_world \<Rightarrow> nat \<Rightarrow> 'e scsi_world"
  uu_scsi_done :: "'e scsi_world \<Rightarrow> nat \<Rightarrow> rq_ptr \<Rightarrow> 'e scsi_world"
  scsi_put_command :: "'e scsi_world \<Rightarrow> nat \<Rightarrow> 'e scsi_world"
  w_end_that_request_chunk ::
    "'e scsi_world \<Rightarrow> nat \<Rightarrow> rq_ptr \<Rightarrow> int \<Rightarrow> 32 word \<Rightarrow> 'e scsi_world \<times> int"
  w_end_that_request_last :: "'e scsi_world \<Rightarrow> nat \<Rightarrow> rq_ptr \<Rightarrow> int \<Rightarrow> 'e scsi_world"
  get_device :: "'e scsi_world \<Rightarrow> nat \<Rightarrow> bool"
  scsi_device_get :: "'e scsi_world \<Rightarrow> nat \<Rightarrow> int"
  blk_queue_tagged :: "'e request_queue \<Rightarrow> bool"
  blk_queue_start_tag :: "'e request_queue \<Rightarrow> rq_ptr \<Rightarrow> 'e request_queue \<times> int"
  blk_rq_tagged :: "'e request_queue \<Rightarrow> rq_ptr \<Rightarrow> bool"
  blk_queue_end_tag :: "'e request_queue \<Rightarrow> rq_ptr \<Rightarrow> 'e request_queue"
  scsi_command_normalize_sense :: "scsi_cmnd \<Rightarrow> bool \<times> scsi_sense_hdr"
  scsi_sense_is_deferred :: "scsi_sense_hdr \<Rightarrow> bool"

definition call_sx ::
  "scsi_call \<Rightarrow> ('e scsi_world \<Rightarrow> 'e scsi_world) \<Rightarrow> 'e scsi_world \<Rightarrow> 'e scsi_world" where
  "call_sx c f w = (f w)\<lparr>slog := slog w @ [c]\<rparr>"

definition set_squeue :: "nat \<Rightarrow> 'e request_queue \<Rightarrow> 'e scsi_world \<Rightarrow> 'e scsi_world" where
  "set_squeue d q w = w\<lparr>squeues := (squeues w)(d := q)\<rparr>"

definition set_sdev :: "nat \<Rightarrow> scsi_device \<Rightarrow> 'e scsi_world \<Rightarrow> 'e scsi_world" where
  "set_sdev d sd w = w\<lparr>sdevs := (sdevs w)(d := sd)\<rparr>"

definition w_blk_plug_device :: "'e blk_ext \<Rightarrow> nat \<Rightarrow> 'e scsi_world \<Rightarrow> 'e scsi_world" where
  "w_blk_plug_device x d w =
     set_squeue d (call_ext Call_blk_plug_device (blk_plug_device x) (squeues w d)) w"

text \<open>
  Modelled from the spec: \<open>blk_requeue_request\<close> is a function of \<^verbatim>\<open>ll_rw_blk.c\<close>.
  The spec has a refused request reinserted with the REQUEUE placement, which is
  \<open>elv_requeue_request\<close>; before that the routine ends the request's tag if it has one.
\<close>

definition blk_requeue_request ::
  "'e elevator_ops \<Rightarrow> 'e blk_ext \<Rightarrow> 'e scsi_ext \<Rightarrow> 'e request_queue \<Rightarrow> rq_ptr
     \<Rightarrow> blk_fault + 'e request_queue" where
  "blk_requeue_request e x sx q rq =
     elv_requeue_request e x (if blk_rq_tagged sx q rq then blk_queue_end_tag sx q rq else q) rq"

subsection \<open>scsi_kill_request and scsi_request_fn\<close>

definition scsi_kill_request ::
  "'e scsi_ext \<Rightarrow> 'e scsi_world \<Rightarrow> nat \<Rightarrow> rq_ptr \<Rightarrow> blk_fault + 'e scsi_world" where
  "scsi_kill_request sx w d req =
     (case elv_dequeue_request (squeues w d) req of
        Inl f \<Rightarrow> Inl f
      | Inr q1 \<Rightarrow>
          (case special (rqs q1 req) of
             None \<Rightarrow> Inl BUG
           | Some cmd \<Rightarrow>
               (let w1 = set_squeue d q1 w;
                    sd = sdevs w1 d;
                    w2 = set_sdev d (sd\<lparr>device_busy := device_busy sd + 1\<rparr>) w1;
                    w3 = w2\<lparr>shost := (shost w2)\<lparr>host_busy := host_busy (shost w2) + 1\<rparr>\<rparr>
                in Inr (call_sx (Call_scsi_done d req) (\<lambda>w. uu_scsi_done sx w d req) w3))))"

text \<open>The label \<^verbatim>\<open>not_ready\<close> of \<open>scsi_request_fn\<close>.\<close>

definition scsi_request_fn_not_ready ::
  "'e elevator_ops \<Rightarrow> 'e blk_ext \<Rightarrow> 'e scsi_ext \<Rightarrow> 'e scsi_world \<Rightarrow> nat \<Rightarrow> rq_ptr
     \<Rightarrow> blk_fault + 'e scsi_world" where
  "scsi_request_fn_not_ready e x sx w d req =
     (case blk_requeue_request e x sx (squeues w d) req of
        Inl f \<Rightarrow> Inl f
      | Inr q1 \<Rightarrow>
          (let w1 = set_squeue d q1 w;
               sd = sdevs w1 d;
               w2 = set_sdev d (sd\<lparr>device_busy := device_busy sd - 1\<rparr>) w1
           in if device_busy (sdevs w2 d) = 0 then Inr (w_blk_plug_device x d w2) else Inr w2))"

text \<open>
  Taking the request off the dispatch list: \<^verbatim>\<open>blkdev_dequeue_request\<close> unless the
  queue is tagged and \<open>blk_queue_start_tag\<close> returned 0.
\<close>

definition scsi_request_fn_dequeue ::
  "'e scsi_ext \<Rightarrow> 'e request_queue \<Rightarrow> rq_ptr \<Rightarrow> blk_fault + 'e request_queue" where
  "scsi_request_fn_dequeue sx q req =
     (if blk_queue_tagged sx q then
        (case blk_queue_start_tag sx q req of
           (q1, r) \<Rightarrow> if r = 0 then Inr q1 else elv_dequeue_request q1 req)
      else elv_dequeue_request q req)"

text \<open>
  One iteration of the loop of \<open>scsi_request_fn\<close> from \<^verbatim>\<open>sdev->device_busy++\<close>
  on, for a request already taken off the dispatch list. It ends by going round the loop
  again, by \<^verbatim>\<open>break\<close>, or through the label \<^verbatim>\<open>not_ready\<close>.
\<close>

datatype 'w loop_step = Loop_continue 'w | Loop_break 'w | Loop_not_ready 'w

definition scsi_request_fn_issue ::
  "'e elevator_ops \<Rightarrow> 'e blk_ext \<Rightarrow> 'e scsi_ext \<Rightarrow> 'e scsi_world \<Rightarrow> nat \<Rightarrow> rq_ptr
     \<Rightarrow> blk_fault + 'e scsi_world loop_step" where
  "scsi_request_fn_issue e x sx w3 d req =
     (let sd3 = sdevs w3 d;
          w4 = set_sdev d (sd3\<lparr>device_busy := device_busy sd3 + 1\<rparr>) w3
      in case special (rqs (squeues w4 d) req) of
           None \<Rightarrow> Inl BUG
         | Some cmd \<Rightarrow>
             (case scsi_host_queue_ready x (squeues w4 d) (shost w4) d of
                (hr, q5, sh5) \<Rightarrow>
                  (let w5 = (set_squeue d q5 w4)\<lparr>shost := sh5\<rparr>;
                       t = sdev_target (sdevs w5 d)
                   in if hr = 0 then
                        map_sum id Loop_not_ready (scsi_request_fn_not_ready e x sx w5 d req)
                      else if single_lun (sdevs w5 d) \<and> starget_sdev_user w5 t \<noteq> None
                              \<and> starget_sdev_user w5 t \<noteq> Some d then
                        map_sum id Loop_not_ready (scsi_request_fn_not_ready e x sx w5 d req)
                      else
                        (let w6 = (if single_lun (sdevs w5 d)
                                   then w5\<lparr>starget_sdev_user := (starget_sdev_user w5)(t := Some d)\<rparr>
                                   else w5);
                             w7 = w6\<lparr>shost := (shost w6)\<lparr>host_busy := host_busy (shost w6) + 1\<rparr>\<rparr>
                         in case scsi_dispatch_cmd sx w7 d req of
                              (w8, rtn) \<Rightarrow>
                                (let w9 = w8\<lparr>slog := slog w7 @ [Call_scsi_dispatch_cmd d req]\<rparr>
                                 in if rtn \<noteq> 0 then
                                      (if device_busy (sdevs w9 d) = 0
                                       then Inr (Loop_break (w_blk_plug_device x d w9))
                                       else Inr (Loop_break w9))
                                    else Inr (Loop_continue w9))))))"

text \<open>
  The loop of \<open>scsi_request_fn\<close>. The result says how the loop ended: \<open>True\<close> when it
  left through \<^verbatim>\<open>not_ready\<close>.
\<close>

fun scsi_request_fn_loop ::
  "'e elevator_ops \<Rightarrow> 'e blk_ext \<Rightarrow> 'e scsi_ext \<Rightarrow> nat \<Rightarrow> nat \<Rightarrow> 'e scsi_world \<Rightarrow> nat
     \<Rightarrow> blk_fault + ('e scsi_world \<times> bool)" where
  "scsi_request_fn_loop e x sx fuel 0 w d = Inl Fuel_exhausted"
| "scsi_request_fn_loop e x sx fuel (Suc n) w d =
     (if blk_queue_plugged (squeues w d) then Inr (w, False)
      else
        (case elv_next_request e x fuel (squeues w d) of
           Inl f \<Rightarrow> Inl f
         | Inr (q1, None) \<Rightarrow> Inr (set_squeue d q1 w, False)
         | Inr (q1, Some req) \<Rightarrow>
             (case scsi_dev_queue_ready x q1 (sdevs w d) of
                (r, q2, sd2) \<Rightarrow>
                  (let w2 = set_sdev d sd2 (set_squeue d q2 w)
                   in if r = 0 then Inr (w2, False)
                      else if \<not> sdev_online (sdevs w2 d) then
                        (case scsi_kill_request sx w2 d req of
                           Inl f \<Rightarrow> Inl f
                         | Inr w3 \<Rightarrow> scsi_request_fn_loop e x sx fuel n w3 d)
                      else
                        (case scsi_request_fn_dequeue sx (squeues w2 d) req of
                           Inl f \<Rightarrow> Inl f
                         | Inr q3 \<Rightarrow>
                             (case scsi_request_fn_issue e x sx (set_squeue d q3 w2) d req of
                                Inl f \<Rightarrow> Inl f
                              | Inr (Loop_continue w') \<Rightarrow> scsi_request_fn_loop e x sx fuel n w' d
                              | Inr (Loop_break w') \<Rightarrow> Inr (w', False)
                              | Inr (Loop_not_ready w') \<Rightarrow> Inr (w', True)))))))"

text \<open>The loop of the dead-queue branch: every request is killed.\<close>

fun scsi_request_fn_kill_all ::
  "'e elevator_ops \<Rightarrow> 'e blk_ext \<Rightarrow> 'e scsi_ext \<Rightarrow> nat \<Rightarrow> nat \<Rightarrow> 'e scsi_world \<Rightarrow> nat
     \<Rightarrow> blk_fault + 'e scsi_world" where
  "scsi_request_fn_kill_all e x sx fuel 0 w d = Inl Fuel_exhausted"
| "scsi_request_fn_kill_all e x sx fuel (Suc n) w d =
     (case elv_next_request e x fuel (squeues w d) of
        Inl f \<Rightarrow> Inl f
      | Inr (q1, None) \<Rightarrow> Inr (set_squeue d q1 w)
      | Inr (q1, Some req) \<Rightarrow>
          (case scsi_kill_request sx (set_squeue d q1 w) d req of
             Inl f \<Rightarrow> Inl f
           | Inr w1 \<Rightarrow> scsi_request_fn_kill_all e x sx fuel n w1 d))"

definition scsi_request_fn ::
  "'e elevator_ops \<Rightarrow> 'e blk_ext \<Rightarrow> 'e scsi_ext \<Rightarrow> nat \<Rightarrow> 'e scsi_world \<Rightarrow> nat
     \<Rightarrow> blk_fault + 'e scsi_world" where
  "scsi_request_fn e x sx fuel w d =
     (if \<not> squeuedata w d then scsi_request_fn_kill_all e x sx fuel fuel w d
      else if \<not> get_device sx w d then Inr w
      else map_sum id fst (scsi_request_fn_loop e x sx fuel fuel w d))"

subsection \<open>scsi_run_queue and what calls it\<close>

fun scsi_single_lun_siblings ::
  "'e scsi_ext \<Rightarrow> nat \<Rightarrow> nat list \<Rightarrow> 'e scsi_world \<Rightarrow> 'e scsi_world" where
  "scsi_single_lun_siblings sx cur [] w = w"
| "scsi_single_lun_siblings sx cur (sd # rest) w =
     (if sd = cur then scsi_single_lun_siblings sx cur rest w
      else if scsi_device_get sx w sd \<noteq> 0 then scsi_single_lun_siblings sx cur rest w
      else scsi_single_lun_siblings sx cur rest
             (call_sx (Call_blk_run_queue sd) (\<lambda>w. blk_run_queue sx w sd) w))"

definition scsi_single_lun_run :: "'e scsi_ext \<Rightarrow> 'e scsi_world \<Rightarrow> nat \<Rightarrow> 'e scsi_world" where
  "scsi_single_lun_run sx w cur =
     (let t = sdev_target (sdevs w cur);
          w1 = w\<lparr>starget_sdev_user := (starget_sdev_user w)(t := None)\<rparr>;
          w2 = call_sx (Call_blk_run_queue cur) (\<lambda>w. blk_run_queue sx w cur) w1
      in if starget_sdev_user w2 t \<noteq> None then w2
         else scsi_single_lun_siblings sx cur (starget_devices w2 t) w2)"

text \<open>
  The sweep over the starvation list: as long as the host takes commands, the first
  starved device is taken off the list and its queue is run.
\<close>

fun scsi_run_queue_sweep :: "'e scsi_ext \<Rightarrow> nat \<Rightarrow> 'e scsi_world \<Rightarrow> 'e scsi_world option" where
  "scsi_run_queue_sweep sx 0 w = None"
| "scsi_run_queue_sweep sx (Suc n) w =
     (case starved_list (shost w) of
        [] \<Rightarrow> Some w
      | sd # rest \<Rightarrow>
          if host_blocked (shost w) = 0 \<and> \<not> host_self_blocked (shost w)
             \<and> \<not> (can_queue (shost w) > 0 \<and> int (host_busy (shost w)) \<ge> can_queue (shost w)) then
            (let w1 = w\<lparr>shost := (shost w)\<lparr>starved_list := rest\<rparr>\<rparr>;
                 w2 = call_sx (Call_blk_run_queue sd) (\<lambda>w. blk_run_queue sx w sd) w1
             in if sd \<in> set (starved_list (shost w2)) then Some w2
                else scsi_run_queue_sweep sx n w2)
          else Some w)"

definition scsi_run_queue :: "'e scsi_ext \<Rightarrow> nat \<Rightarrow> 'e scsi_world \<Rightarrow> nat \<Rightarrow> 'e scsi_world option" where
  "scsi_run_queue sx fuel w d =
     (let w1 = (if single_lun (sdevs w d) then scsi_single_lun_run sx w d else w)
      in case scsi_run_queue_sweep sx fuel w1 of
           None \<Rightarrow> None
         | Some w2 \<Rightarrow> Some (call_sx (Call_blk_run_queue d) (\<lambda>w. blk_run_queue sx w d) w2))"

definition scsi_unprep_request :: "'e scsi_ext \<Rightarrow> 'e scsi_world \<Rightarrow> nat \<Rightarrow> rq_ptr \<Rightarrow> 'e scsi_world" where
  "scsi_unprep_request sx w d req =
     (let q = squeues w d;
          q1 = rq_clear_flag req REQ_DONTPREP q;
          q2 = q1\<lparr>rqs := (rqs q1)(req := (rqs q1 req)\<lparr>special := None\<rparr>)\<rparr>
      in call_sx (Call_scsi_put_command d) (\<lambda>w. scsi_put_command sx w d) (set_squeue d q2 w))"

definition scsi_requeue_command ::
  "'e elevator_ops \<Rightarrow> 'e blk_ext \<Rightarrow> 'e scsi_ext \<Rightarrow> nat \<Rightarrow> 'e scsi_world \<Rightarrow> nat \<Rightarrow> rq_ptr
     \<Rightarrow> blk_fault + 'e scsi_world" where
  "scsi_requeue_command e x sx fuel w d req =
     (let w1 = scsi_unprep_request sx w d req
      in case blk_requeue_request e x sx (squeues w1 d) req of
           Inl f \<Rightarrow> Inl f
         | Inr q1 \<Rightarrow>
             (case scsi_run_queue sx fuel (set_squeue d q1 w1) d of
                None \<Rightarrow> Inl Fuel_exhausted
              | Some w2 \<Rightarrow> Inr w2))"

definition scsi_next_command ::
  "'e scsi_ext \<Rightarrow> nat \<Rightarrow> 'e scsi_world \<Rightarrow> nat \<Rightarrow> blk_fault + 'e scsi_world" where
  "scsi_next_command sx fuel w d =
     (let w1 = call_sx (Call_scsi_put_command d) (\<lambda>w. scsi_put_command sx w d) w
      in case scsi_run_queue sx fuel w1 d of
           None \<Rightarrow> Inl Fuel_exhausted
         | Some w2 \<Rightarrow> Inr w2)"

subsection \<open>Completion: scsi_end_request and scsi_io_completion\<close>

text \<open>Values of \<^verbatim>\<open>include/scsi/scsi.h\<close>.\<close>

definition NOT_READY :: "8 word" where "NOT_READY = 0x02"
definition ILLEGAL_REQUEST :: "8 word" where "ILLEGAL_REQUEST = 0x05"
definition UNIT_ATTENTION :: "8 word" where "UNIT_ATTENTION = 0x06"
definition VOLUME_OVERFLOW :: "8 word" where "VOLUME_OVERFLOW = 0x0d"
definition READ_10 :: "8 word" where "READ_10 = 0x28"
definition WRITE_10 :: "8 word" where "WRITE_10 = 0x2a"
definition DID_RESET :: "32 word" where "DID_RESET = 0x08"
definition SCSI_SENSE_BUFFERSIZE :: "32 word" where "SCSI_SENSE_BUFFERSIZE = 96"

definition host_byte :: "32 word \<Rightarrow> 32 word" where
  "host_byte result = and (drop_bit 16 result) 0xff"

text \<open>The tail of \<open>scsi_end_request\<close>: the request is over and the next command is started.\<close>

definition scsi_end_request_finish ::
  "'e scsi_ext \<Rightarrow> nat \<Rightarrow> 'e scsi_world \<Rightarrow> scsi_cmnd \<Rightarrow> int \<Rightarrow> blk_fault + 'e scsi_world" where
  "scsi_end_request_finish sx fuel w cmd uptodate =
     (let d = cmd_device cmd; req = cmd_request cmd;
          q = squeues w d;
          w1 = (if blk_rq_tagged sx q req then set_squeue d (blk_queue_end_tag sx q req) w else w);
          w2 = call_sx (Call_w_end_that_request_last d req uptodate)
                 (\<lambda>w. w_end_that_request_last sx w d req uptodate) w1
      in scsi_next_command sx fuel w2 d)"

text \<open>
  \<open>scsi_end_request\<close> returns the world and whether it returned the command
  (\<open>True\<close>) or NULL.
\<close>

definition scsi_end_request ::
  "'e elevator_ops \<Rightarrow> 'e blk_ext \<Rightarrow> 'e scsi_ext \<Rightarrow> nat \<Rightarrow> 'e scsi_world \<Rightarrow> scsi_cmnd
     \<Rightarrow> int \<Rightarrow> 32 word \<Rightarrow> int \<Rightarrow> blk_fault + ('e scsi_world \<times> bool)" where
  "scsi_end_request e x sx fuel w cmd uptodate bytes requeue =
     (let d = cmd_device cmd; req = cmd_request cmd
      in case w_end_that_request_chunk sx w d req uptodate bytes of
           (w0, left) \<Rightarrow>
             (let w1 = w0\<lparr>slog := slog w @ [Call_w_end_that_request_chunk d req uptodate bytes]\<rparr>;
                  rq = rqs (squeues w1 d) req
              in if left \<noteq> 0 then
                   (let leftover = (if blk_pc_request rq then data_len rq
                                    else ucast (push_bit 9 (hard_nr_sectors rq)))
                    in if uptodate = 0 \<and> blk_noretry_request rq then
                         (let w2 = (fst (w_end_that_request_chunk sx w1 d req 0 leftover))
                                     \<lparr>slog := slog w1 @ [Call_w_end_that_request_chunk d req 0 leftover]\<rparr>
                          in map_sum id (\<lambda>w. (w, False)) (scsi_end_request_finish sx fuel w2 cmd uptodate))
                       else if requeue \<noteq> 0 then
                         map_sum id (\<lambda>w. (w, False)) (scsi_requeue_command e x sx fuel w1 d req)
                       else Inr (w1, True))
                 else map_sum id (\<lambda>w. (w, False)) (scsi_end_request_finish sx fuel w1 cmd uptodate)))"

text \<open>
  The bookkeeping on the request at the start of \<open>scsi_io_completion\<close>
  (\<^verbatim>\<open>req->errors\<close>, \<^verbatim>\<open>req->sense_len\<close>, \<^verbatim>\<open>req->data_len\<close>); the sense bytes
  themselves are not part of the model.
\<close>

definition scsi_io_completion_errors ::
  "scsi_cmnd \<Rightarrow> bool \<Rightarrow> request \<Rightarrow> request" where
  "scsi_io_completion_errors cmd sense_valid rq =
     (let result = cmd_result cmd;
          pc = (if blk_pc_request rq then
                  (let rq1 = rq\<lparr>rq_errors := result\<rparr>
                   in if result \<noteq> 0 then
                        (if sense_valid \<and> rq_sense rq1 then
                           (let len = 8 + ucast (sense_buffer7 cmd);
                                len' = (if len > SCSI_SENSE_BUFFERSIZE then SCSI_SENSE_BUFFERSIZE else len)
                            in (False, rq1\<lparr>sense_len := len'\<rparr>))
                         else (False, rq1))
                      else (True, rq1\<lparr>data_len := cmd_resid cmd\<rparr>))
                else (True, rq))
      in case pc of (clear_errors, rq2) \<Rightarrow> if clear_errors then rq2\<lparr>rq_errors := 0\<rparr> else rq2)"

text \<open>
  \<open>scsi_io_completion\<close> after its first \<open>scsi_end_request\<close> has returned the command:
  the switch on the sense key, the reset test and the final call.
\<close>

definition scsi_io_completion_classify ::
  "'e elevator_ops \<Rightarrow> 'e blk_ext \<Rightarrow> 'e scsi_ext \<Rightarrow> nat \<Rightarrow> 'e scsi_world \<Rightarrow> scsi_cmnd
     \<Rightarrow> bool \<Rightarrow> bool \<Rightarrow> scsi_sense_hdr \<Rightarrow> blk_fault + 'e scsi_world" where
  "scsi_io_completion_classify e x sx fuel w cmd sense_valid sense_deferred sshdr =
     (let result = cmd_result cmd; this_count = request_bufflen cmd;
          d = cmd_device cmd; req = cmd_request cmd; sd = sdevs w d;
          use = sense_valid \<and> \<not> sense_deferred
      in if use \<and> sense_key sshdr = UNIT_ATTENTION then
           (if removable sd then
              map_sum id fst
                (scsi_end_request e x sx fuel (set_sdev d (sd\<lparr>changed := True\<rparr>) w) cmd 0 this_count 1)
            else scsi_requeue_command e x sx fuel w d req)
         else if use \<and> sense_key sshdr = ILLEGAL_REQUEST then
           (if (use_10_for_rw sd \<and> asc sshdr = 0x20 \<and> ascq sshdr = 0x00)
               \<and> (cmnd0 cmd = READ_10 \<or> cmnd0 cmd = WRITE_10) then
              scsi_requeue_command e x sx fuel (set_sdev d (sd\<lparr>use_10_for_rw := False\<rparr>) w) d req
            else map_sum id fst (scsi_end_request e x sx fuel w cmd 0 this_count 1))
         else if use \<and> sense_key sshdr = NOT_READY then
           (if asc sshdr = 0x04 \<and> ascq sshdr \<in> {0x01, 0x04, 0x05, 0x06, 0x07, 0x08, 0x09} then
              scsi_requeue_command e x sx fuel w d req
            else map_sum id fst (scsi_end_request e x sx fuel w cmd 0 this_count 1))
         else if use \<and> sense_key sshdr = VOLUME_OVERFLOW then
           map_sum id fst (scsi_end_request e x sx fuel w cmd 0 this_count 1)
         else if host_byte result = DID_RESET then scsi_requeue_command e x sx fuel w d req
         else map_sum id fst
                (scsi_end_request e x sx fuel w cmd 0 this_count (if result = 0 then 1 else 0)))"

definition scsi_io_completion ::
  "'e elevator_ops \<Rightarrow> 'e blk_ext \<Rightarrow> 'e scsi_ext \<Rightarrow> nat \<Rightarrow> 'e scsi_world \<Rightarrow> scsi_cmnd \<Rightarrow> 32 word
     \<Rightarrow> blk_fault + 'e scsi_world" where
  "scsi_io_completion e x sx fuel w cmd good_bytes =
     (let result = cmd_result cmd; d = cmd_device cmd; req = cmd_request cmd;
          sense_valid = (result \<noteq> 0 \<and> fst (scsi_command_normalize_sense sx cmd));
          sshdr = snd (scsi_command_normalize_sense sx cmd);
          sense_deferred = (sense_valid \<and> scsi_sense_is_deferred sx sshdr);
          q = squeues w d;
          w1 = set_squeue d
                 (q\<lparr>rqs := (rqs q)(req := scsi_io_completion_errors cmd sense_valid (rqs q req))\<rparr>) w
      in case scsi_end_request e x sx fuel w1 cmd 1 good_bytes (if result = 0 then 1 else 0) of
           Inl f \<Rightarrow> Inl f
         | Inr (w2, False) \<Rightarrow> Inr w2
         | Inr (w2, True) \<Rightarrow>
             scsi_io_completion_classify e x sx fuel w2 cmd sense_valid sense_deferred sshdr)"

section \<open>Sequences of operations on one queue\<close>






text \<open>
  The entry points of elevator.c that work on a queue and its requests, and a sequence
  of them applied one after the other; a fault ends the sequence.
\<close>

datatype elv_op =
    Op_add_request rq_ptr elv_where bool
  | Op_requeue_request rq_ptr
  | Op_next_request
  | Op_dequeue_request rq_ptr
  | Op_completed_request rq_ptr
  | Op_dispatch_sort rq_ptr
  | Op_merged_request rq_ptr
  | Op_merge_requests rq_ptr rq_ptr

fun elv_op_step ::
  "'e elevator_ops \<Rightarrow> 'e blk_ext \<Rightarrow> nat \<Rightarrow> 'e request_queue \<Rightarrow> elv_op
     \<Rightarrow> blk_fault + 'e request_queue" where
  "elv_op_step e x fuel q (Op_add_request rq wh plug) = uu_elv_add_request e x fuel q rq wh plug"
| "elv_op_step e x fuel q (Op_requeue_request rq) = elv_requeue_request e x q rq"
| "elv_op_step e x fuel q Op_next_request = map_sum id fst (elv_next_request e x fuel q)"
| "elv_op_step e x fuel q (Op_dequeue_request rq) = elv_dequeue_request q rq"
| "elv_op_step e x fuel q (Op_completed_request rq) = elv_completed_request e x q rq"
| "elv_op_step e x fuel q (Op_dispatch_sort rq) = Inr (elv_dispatch_sort q rq)"
| "elv_op_step e x fuel q (Op_merged_request rq) = Inr (elv_merged_request e q rq)"
| "elv_op_step e x fuel q (Op_merge_requests rq nxt) = Inr (elv_merge_requests e q rq nxt)"

fun elv_run ::
  "'e elevator_ops \<Rightarrow> 'e blk_ext \<Rightarrow> nat \<Rightarrow> 'e request_queue \<Rightarrow> elv_op list
     \<Rightarrow> blk_fault + 'e request_queue" where
  "elv_run e x fuel q [] = Inr q"
| "elv_run e x fuel q (op # ops) =
     (case elv_op_step e x fuel q op of Inl f \<Rightarrow> Inl f | Inr q' \<Rightarrow> elv_run e x fuel q' ops)"

text \<open>
  The request at \<open>rq\<close> carries a mark that rules it out as a merge target: it is
  started or a soft barrier.
\<close>

definition rq_marked :: "'e request_queue \<Rightarrow> rq_ptr \<Rightarrow> bool" where
  "rq_marked q rq \<longleftrightarrow> REQ_STARTED \<in> flags (rqs q rq) \<or> REQ_SOFTBARRIER \<in> flags (rqs q rq)"

text \<open>
  What is assumed of the code around elevator.c: no policy hook and no routine of the
  driver or of \<^verbatim>\<open>ll_rw_blk.c\<close> takes that mark off the request at \<open>rq\<close>, and the
  driver's prepare routine does not clear the started flag.
\<close>

definition env_keeps_mark :: "'e elevator_ops \<Rightarrow> 'e blk_ext \<Rightarrow> rq_ptr \<Rightarrow> bool" where
  "env_keeps_mark e x rq \<longleftrightarrow>
     (\<forall>q. rq_marked q rq \<longrightarrow>
        (\<forall>f r. elevator_merged_fn e = Some f \<longrightarrow> rq_marked (f q r) rq)
        \<and> (\<forall>f r n. elevator_merge_req_fn e = Some f \<longrightarrow> rq_marked (f q r n) rq)
        \<and> (\<forall>force. rq_marked (fst (elevator_dispatch_fn e q force)) rq)
        \<and> (\<forall>r. rq_marked (elevator_add_req_fn e q r) rq)
        \<and> (\<forall>f r. elevator_activate_req_fn e = Some f \<longrightarrow> rq_marked (f q r) rq)
        \<and> (\<forall>f r. elevator_deactivate_req_fn e = Some f \<longrightarrow> rq_marked (f q r) rq)
        \<and> (\<forall>f r. elevator_completed_req_fn e = Some f \<longrightarrow> rq_marked (f q r) rq)
        \<and> rq_marked (request_fn x q) rq
        \<and> (\<forall>f r. prep_rq_fn x = Some f \<longrightarrow> rq_marked (fst (f q r)) rq)
        \<and> rq_marked (blk_plug_device x q) rq
        \<and> rq_marked (blk_remove_plug x q) rq
        \<and> rq_marked (generic_unplug_device x q) rq
        \<and> (\<forall>s err. rq_marked (blk_ordered_complete_seq x q s err) rq)
        \<and> (\<forall>r. rq_marked (fst (blk_do_ordered x q r)) rq)
        \<and> (\<forall>r u n. rq_marked (end_that_request_chunk x q r u n) rq)
        \<and> (\<forall>r u. rq_marked (end_that_request_last x q r u) rq))"

definition prep_keeps_started :: "'e blk_ext \<Rightarrow> rq_ptr \<Rightarrow> bool" where
  "prep_keeps_started x rq \<longleftrightarrow>
     (\<forall>f q. prep_rq_fn x = Some f \<longrightarrow> REQ_STARTED \<in> flags (rqs q rq)
        \<longrightarrow> REQ_STARTED \<in> flags (rqs (fst (f q rq)) rq))"




subsection \<open>The starvation sweep\<close>


section \<open>Concrete values\<close>

text \<open>
  A filesystem read of sectors 100 to 109 on disk 1, a policy without optional hooks that
  never holds a request, and simple surroundings: plugging sets and clears the plug flag,
  the request at address 0 belongs before the barrier (sequence 2, drain) and every other
  one is the barrier itself (sequence 8), and the sequencer is past its start once
  \<open>ordseq\<close> is 1. These are the inputs at which the theorems below are instantiated.
\<close>

definition ex_rq :: request where
  "ex_rq = \<lparr>flags = {REQ_CMD}, sector = 100, nr_sectors = 10, hard_nr_sectors = 10,
            data_len = 0, rq_disk = Some 1, waiting = None, special = None,
            rq_errors = 0, rq_sense = False, sense_len = 0\<rparr>"

text \<open>A read of the ten sectors that follow \<open>ex_rq\<close> on the same disk.\<close>

definition ex_bio :: bio where
  "ex_bio = \<lparr>bi_sector = 110, bi_size = 5120, bi_rw = {}, bi_bdev_bd_disk = Some 1\<rparr>"

definition ex_ops :: "unit elevator_ops" where
  "ex_ops = \<lparr>elevator_merge_fn = None, elevator_merged_fn = None, elevator_merge_req_fn = None,
             elevator_dispatch_fn = (\<lambda>q force. (q, 0)), elevator_add_req_fn = (\<lambda>q rq. q),
             elevator_activate_req_fn = None, elevator_deactivate_req_fn = None,
             elevator_completed_req_fn = None, elevator_init_fn = (\<lambda>q. Some ())\<rparr>"

definition ex_ext :: "unit blk_ext" where
  "ex_ext = \<lparr>request_fn = (\<lambda>q. q), prep_rq_fn = None,
             blk_plug_device = (\<lambda>q. q\<lparr>queue_flags := insert QUEUE_FLAG_PLUGGED (queue_flags q)\<rparr>),
             blk_remove_plug = (\<lambda>q. q\<lparr>queue_flags := queue_flags q - {QUEUE_FLAG_PLUGGED}\<rparr>),
             generic_unplug_device = (\<lambda>q. q\<lparr>queue_flags := queue_flags q - {QUEUE_FLAG_PLUGGED}\<rparr>),
             blk_ordered_req_seq = (\<lambda>q rq. if rq = 0 then 2 else 8),
             blk_ordered_cur_seq = (\<lambda>q. if ordseq q = 0 then 0 else if ordseq q = 1 then 2 else 8),
             blk_ordered_complete_seq = (\<lambda>q s err. q\<lparr>ordseq := or (ordseq q) (of_nat s)\<rparr>),
             blk_do_ordered = (\<lambda>q rq. (q, Some rq, 1)),
             end_that_request_chunk = (\<lambda>q rq u n. q),
             end_that_request_last = (\<lambda>q rq u. q),
             msleep_unlocked = (\<lambda>q. q\<lparr>rq_elvpriv := 0\<rparr>),
             kmalloc_elevator = (\<lambda>q. Some 7),
             kobject_add_error = (\<lambda>q p. 0)\<rparr>"

definition ex_queue :: "unit request_queue" where
  "ex_queue = \<lparr>rqs = (\<lambda>p. ex_rq), queue_head = [], last_merge = None, boundary_rq = None,
               end_sector = 0, nr_sorted = 0, in_flight = 0, ordseq = 0, ordcolor = False,
               unplug_thresh = 4, rq_count = (\<lambda>d. 0), rq_elvpriv = 0, queue_flags = {},
               elevator = 3, elevator_data = (),
               elv_objs = (Map.empty(3 \<mapsto> \<lparr>eo_type = 0, eo_ops_set = True, eo_kref = 2, eo_added = True\<rparr>)),
               calls = []\<rparr>"

text \<open>An idle device of depth 2 and an idle host that takes one command at a time.\<close>

definition ex_sdev :: scsi_device where
  "ex_sdev = \<lparr>device_busy = 0, queue_depth = 2, device_blocked = 0, single_lun = False,
              removable = False, changed = False, use_10_for_rw = True, sdev_online = True,
              sdev_target = 0\<rparr>"

definition ex_host :: Scsi_Host where
  "ex_host = \<lparr>host_busy = 0, can_queue = 1, host_blocked = 0, host_self_blocked = False,
              host_in_recovery = False, starved_list = []\<rparr>"






section \<open>Properties\<close>

subsection \<open>Merge lookup\<close>









subsection \<open>Admission gates\<close>

lemma scsi_dev_queue_ready_iff:
  "fst (scsi_dev_queue_ready x q sd) \<noteq> 0 \<longleftrightarrow>
     device_busy sd < queue_depth sd
     \<and> (device_blocked sd = 0 \<or> (device_blocked sd = 1 \<and> device_busy sd = 0))"
  by (auto simp: scsi_dev_queue_ready_def Let_def)

lemma scsi_dev_queue_ready_blocked:
  "fst (scsi_dev_queue_ready x q sd) \<noteq> 0 \<Longrightarrow>
     device_blocked (snd (snd (scsi_dev_queue_ready x q sd))) = 0"
  by (auto simp: scsi_dev_queue_ready_def Let_def split: if_splits)

lemma scsi_host_queue_ready_iff:
  "fst (scsi_host_queue_ready x q sh d) \<noteq> 0 \<longleftrightarrow>
     \<not> host_in_recovery sh
     \<and> (host_blocked sh = 0 \<or> (host_blocked sh = 1 \<and> host_busy sh = 0))
     \<and> \<not> host_self_blocked sh
     \<and> (can_queue sh \<le> 0 \<or> int (host_busy sh) < can_queue sh)"
  by (auto simp: scsi_host_queue_ready_def Let_def)

lemma scsi_host_queue_ready_blocked:
  "fst (scsi_host_queue_ready x q sh d) \<noteq> 0 \<Longrightarrow>
     host_blocked (snd (snd (scsi_host_queue_ready x q sh d))) = 0
     \<and> \<not> host_self_blocked (snd (snd (scsi_host_queue_ready x q sh d)))
     \<and> \<not> host_in_recovery (snd (snd (scsi_host_queue_ready x q sh d)))"
  by (auto simp: scsi_host_queue_ready_def Let_def split: if_splits)

text \<open>
  C2, as the code has it. The device gate admits only if \<open>device_busy < queue_depth\<close>
  and the device's blocked countdown is zero when the gate answers: on entry it is zero,
  or it is one with nothing in flight and the gate itself takes it to zero. The host gate
  admits only if the host is not in recovery, its blocked countdown is zero when the gate
  answers (in the same sense), it is not self-blocked, and either \<open>can_queue\<close> is not
  positive (no limit) or \<open>host_busy < can_queue\<close>. In both cases the conditions on the
  state at entry are also sufficient.
\<close>

theorem scsi_queue_ready_rule:
  "(fst (scsi_dev_queue_ready x q sd) \<noteq> 0 \<longrightarrow>
      device_busy sd < queue_depth sd
      \<and> device_blocked (snd (snd (scsi_dev_queue_ready x q sd))) = 0)
   \<and> (fst (scsi_dev_queue_ready x q sd) \<noteq> 0 \<longleftrightarrow>
        device_busy sd < queue_depth sd
        \<and> (device_blocked sd = 0 \<or> (device_blocked sd = 1 \<and> device_busy sd = 0)))
   \<and> (fst (scsi_host_queue_ready x q sh d) \<noteq> 0 \<longrightarrow>
        \<not> host_in_recovery sh
        \<and> host_blocked (snd (snd (scsi_host_queue_ready x q sh d))) = 0
        \<and> \<not> host_self_blocked sh
        \<and> (can_queue sh \<le> 0 \<or> int (host_busy sh) < can_queue sh))
   \<and> (fst (scsi_host_queue_ready x q sh d) \<noteq> 0 \<longleftrightarrow>
        \<not> host_in_recovery sh
        \<and> (host_blocked sh = 0 \<or> (host_blocked sh = 1 \<and> host_busy sh = 0))
        \<and> \<not> host_self_blocked sh
        \<and> (can_queue sh \<le> 0 \<or> int (host_busy sh) < can_queue sh))"
proof -
  have dev: "fst (scsi_dev_queue_ready x q sd) \<noteq> 0 \<longrightarrow>
      device_busy sd < queue_depth sd
      \<and> device_blocked (snd (snd (scsi_dev_queue_ready x q sd))) = 0"
    using scsi_dev_queue_ready_iff [of x q sd] scsi_dev_queue_ready_blocked [of x q sd]
    by blast
  have host: "fst (scsi_host_queue_ready x q sh d) \<noteq> 0 \<longrightarrow>
        \<not> host_in_recovery sh
        \<and> host_blocked (snd (snd (scsi_host_queue_ready x q sh d))) = 0
        \<and> \<not> host_self_blocked sh
        \<and> (can_queue sh \<le> 0 \<or> int (host_busy sh) < can_queue sh)"
    using scsi_host_queue_ready_iff [of x q sh d] scsi_host_queue_ready_blocked [of x q sh d]
    by blast
  show ?thesis
    using dev host scsi_dev_queue_ready_iff [of x q sd] scsi_host_queue_ready_iff [of x q sh d]
    by blast
qed

theorem scsi_queue_ready_rule_witness:
  "fst (scsi_dev_queue_ready ex_ext ex_queue (ex_sdev\<lparr>device_blocked := 1\<rparr>)) \<noteq> 0
   \<and> device_busy (ex_sdev\<lparr>device_blocked := 1\<rparr>) < queue_depth (ex_sdev\<lparr>device_blocked := 1\<rparr>)
   \<and> device_blocked (snd (snd (scsi_dev_queue_ready ex_ext ex_queue
        (ex_sdev\<lparr>device_blocked := 1\<rparr>)))) = 0
   \<and> fst (scsi_host_queue_ready ex_ext ex_queue ex_host 0) \<noteq> 0
   \<and> host_blocked (snd (snd (scsi_host_queue_ready ex_ext ex_queue ex_host 0))) = 0
   \<and> int (host_busy ex_host) < can_queue ex_host"
proof -
  have dev: "fst (scsi_dev_queue_ready ex_ext ex_queue (ex_sdev\<lparr>device_blocked := 1\<rparr>)) \<noteq> 0"
    by (simp add: scsi_dev_queue_ready_def ex_sdev_def)
  have host: "fst (scsi_host_queue_ready ex_ext ex_queue ex_host 0) \<noteq> 0"
    by (simp add: scsi_host_queue_ready_def ex_host_def)
  show ?thesis
    using dev host
      scsi_queue_ready_rule [of ex_ext ex_queue "ex_sdev\<lparr>device_blocked := 1\<rparr>" ex_host 0]
    by (simp add: ex_host_def ex_sdev_def)
qed

text \<open>
  The claim as worded ties an unlimited host to \<open>can_queue = 0\<close>. The gate tests
  \<open>can_queue > 0\<close>, so a host with a negative \<open>can_queue\<close> and five commands
  outstanding is admitted.
\<close>

theorem scsi_host_queue_ready_counterexample:
  "fst (scsi_host_queue_ready ex_ext ex_queue (ex_host\<lparr>host_busy := 5, can_queue := - 1\<rparr>) 0) = 1
   \<and> \<not> (can_queue (ex_host\<lparr>host_busy := 5, can_queue := - 1\<rparr>) = 0
          \<or> int (host_busy (ex_host\<lparr>host_busy := 5, can_queue := - 1\<rparr>))
              < can_queue (ex_host\<lparr>host_busy := 5, can_queue := - 1\<rparr>))"
  by (simp add: scsi_host_queue_ready_def ex_host_def)

subsection \<open>Completion and the drain phase\<close>

lemma calls_call_ext: "calls (call_ext c f q) = calls q @ [c]"
  by (simp add: call_ext_def)

lemma elv_completed_account_ordseq:
  assumes "\<And>f qa. elevator_completed_req_fn e = Some f \<Longrightarrow> ordseq (f qa rq) = ordseq qa"
  shows "ordseq (elv_completed_account e q rq) = ordseq q"
  using assms by (simp add: elv_completed_account_def Let_def split: option.splits)

lemma elv_completed_account_in_flight:
  "elevator_completed_req_fn e = None \<Longrightarrow>
     in_flight (elv_completed_account e q rq)
       = (if blk_account_rq (rqs q rq) then in_flight q - 1 else in_flight q)"
  by (simp add: elv_completed_account_def Let_def)

text \<open>
  C5. \<open>q1\<close> is the queue once the completed request has been accounted for (the
  in-flight count decremented for a started filesystem request, the policy's hook run
  for a sorted one). While a barrier sequence is active and the dispatch list has a head
  request, \<open>elv_completed_request\<close> completes the drain phase and calls the request
  function exactly when in-flight is zero, the current phase is drain and the head
  request's phase is beyond drain; otherwise it returns \<open>q1\<close> as it is, with
  \<open>ordseq\<close> as it was before the completion, provided the policy's completion hook
  leaves \<open>ordseq\<close> alone.
\<close>

theorem elv_completed_request_drain:
  assumes active: "ordseq (elv_completed_account e q rq) \<noteq> 0"
    and head: "queue_head (elv_completed_account e q rq) = first_rq # rest"
    and hook: "\<forall>f qa. elevator_completed_req_fn e = Some f \<longrightarrow> ordseq (f qa rq) = ordseq qa"
  shows "\<exists>q'. elv_completed_request e x q rq = Inr q'
      \<and> ((calls q' = calls (elv_completed_account e q rq)
               @ [Call_blk_ordered_complete_seq QUEUE_ORDSEQ_DRAIN 0, Call_request_fn])
           \<longleftrightarrow> (in_flight (elv_completed_account e q rq) = 0
                 \<and> blk_ordered_cur_seq x (elv_completed_account e q rq) = QUEUE_ORDSEQ_DRAIN
                 \<and> blk_ordered_req_seq x (elv_completed_account e q rq) first_rq > QUEUE_ORDSEQ_DRAIN))
      \<and> (in_flight (elv_completed_account e q rq) = 0
          \<and> blk_ordered_cur_seq x (elv_completed_account e q rq) = QUEUE_ORDSEQ_DRAIN
          \<and> blk_ordered_req_seq x (elv_completed_account e q rq) first_rq > QUEUE_ORDSEQ_DRAIN
          \<longrightarrow> q' = call_ext Call_request_fn (request_fn x)
                     (call_ext (Call_blk_ordered_complete_seq QUEUE_ORDSEQ_DRAIN 0)
                        (\<lambda>q. blk_ordered_complete_seq x q QUEUE_ORDSEQ_DRAIN 0)
                        (elv_completed_account e q rq)))
      \<and> (\<not> (in_flight (elv_completed_account e q rq) = 0
             \<and> blk_ordered_cur_seq x (elv_completed_account e q rq) = QUEUE_ORDSEQ_DRAIN
             \<and> blk_ordered_req_seq x (elv_completed_account e q rq) first_rq > QUEUE_ORDSEQ_DRAIN)
          \<longrightarrow> q' = elv_completed_account e q rq \<and> ordseq q' = ordseq q)"
proof -
  define q1 where "q1 = elv_completed_account e q rq"
  define fire where "fire \<longleftrightarrow> in_flight q1 = 0 \<and> blk_ordered_cur_seq x q1 = QUEUE_ORDSEQ_DRAIN
                 \<and> blk_ordered_req_seq x q1 first_rq > QUEUE_ORDSEQ_DRAIN"
  have keep: "ordseq q1 = ordseq q"
    unfolding q1_def using hook by (intro elv_completed_account_ordseq) blast
  show ?thesis
  proof (cases fire)
    case True
    then have "elv_completed_request e x q rq
        = Inr (call_ext Call_request_fn (request_fn x)
                 (call_ext (Call_blk_ordered_complete_seq QUEUE_ORDSEQ_DRAIN 0)
                    (\<lambda>q. blk_ordered_complete_seq x q QUEUE_ORDSEQ_DRAIN 0) q1))"
      using active head
      by (simp add: elv_completed_request_def Let_def q1_def [symmetric] fire_def)
    with True show ?thesis
      by (simp add: q1_def [symmetric] fire_def calls_call_ext)
  next
    case False
    then have "elv_completed_request e x q rq = Inr q1"
      using active head
      by (auto simp: elv_completed_request_def Let_def q1_def [symmetric] fire_def)
    with False keep show ?thesis
      by (auto simp: q1_def [symmetric] fire_def)
  qed
qed

theorem elv_completed_request_drain_witness:
  "ordseq (elv_completed_account ex_ops
       (ex_queue\<lparr>rqs := (\<lambda>p. ex_rq\<lparr>flags := {REQ_CMD, REQ_STARTED}\<rparr>),
                 queue_head := [1], in_flight := 1, ordseq := 1\<rparr>) 0) \<noteq> 0
   \<and> queue_head (elv_completed_account ex_ops
       (ex_queue\<lparr>rqs := (\<lambda>p. ex_rq\<lparr>flags := {REQ_CMD, REQ_STARTED}\<rparr>),
                 queue_head := [1], in_flight := 1, ordseq := 1\<rparr>) 0) = [1]
   \<and> in_flight (elv_completed_account ex_ops
       (ex_queue\<lparr>rqs := (\<lambda>p. ex_rq\<lparr>flags := {REQ_CMD, REQ_STARTED}\<rparr>),
                 queue_head := [1], in_flight := 1, ordseq := 1\<rparr>) 0) = 0
   \<and> (\<exists>q'. elv_completed_request ex_ops ex_ext
              (ex_queue\<lparr>rqs := (\<lambda>p. ex_rq\<lparr>flags := {REQ_CMD, REQ_STARTED}\<rparr>),
                        queue_head := [1], in_flight := 1, ordseq := 1\<rparr>) 0 = Inr q'
          \<and> calls q' = [Call_blk_ordered_complete_seq QUEUE_ORDSEQ_DRAIN 0, Call_request_fn]
          \<and> ordseq q' = 3)"
proof -
  define Q where "Q = ex_queue\<lparr>rqs := (\<lambda>p. ex_rq\<lparr>flags := {REQ_CMD, REQ_STARTED}\<rparr>),
                 queue_head := [1], in_flight := 1, ordseq := 1\<rparr>"
  have acc: "elv_completed_account ex_ops Q 0 = Q\<lparr>in_flight := 0\<rparr>"
    by (simp add: elv_completed_account_def blk_account_rq_def blk_rq_started_def
        blk_fs_request_def blk_sorted_rq_def Q_def ex_queue_def ex_rq_def)
  have active: "ordseq (elv_completed_account ex_ops Q 0) \<noteq> 0"
    and head: "queue_head (elv_completed_account ex_ops Q 0) = [1]"
    and idle: "in_flight (elv_completed_account ex_ops Q 0) = 0"
    by (simp_all add: acc) (simp_all add: Q_def ex_queue_def)
  have hook: "\<forall>f qa. elevator_completed_req_fn ex_ops = Some f \<longrightarrow> ordseq (f qa 0) = ordseq qa"
    by (simp add: ex_ops_def)
  have fire: "blk_ordered_cur_seq ex_ext (elv_completed_account ex_ops Q 0) = QUEUE_ORDSEQ_DRAIN
      \<and> blk_ordered_req_seq ex_ext (elv_completed_account ex_ops Q 0) 1 > QUEUE_ORDSEQ_DRAIN"
    by (simp add: acc) (simp add: Q_def ex_queue_def ex_ext_def QUEUE_ORDSEQ_DRAIN_def)
  from elv_completed_request_drain [of ex_ops Q 0 1 "[]" ex_ext, OF active head hook]
  obtain q' where res: "elv_completed_request ex_ops ex_ext Q 0 = Inr q'"
    and q': "q' = call_ext Call_request_fn (request_fn ex_ext)
                     (call_ext (Call_blk_ordered_complete_seq QUEUE_ORDSEQ_DRAIN 0)
                        (\<lambda>q. blk_ordered_complete_seq ex_ext q QUEUE_ORDSEQ_DRAIN 0)
                        (elv_completed_account ex_ops Q 0))"
    using idle fire by blast
  have "calls q' = [Call_blk_ordered_complete_seq QUEUE_ORDSEQ_DRAIN 0, Call_request_fn]
      \<and> ordseq q' = 3"
    unfolding q' acc
    by (simp add: call_ext_def ex_ext_def Q_def ex_queue_def QUEUE_ORDSEQ_DRAIN_def)
  with res active head idle show ?thesis
    unfolding Q_def by blast
qed

subsection \<open>The sorted count\<close>











subsection \<open>Requeueing\<close>

lemma requeue_scan_eq:
  "requeue_scan seq oseq rq xs
     = takeWhile (\<lambda>p. seq p < oseq) xs @ rq # dropWhile (\<lambda>p. seq p < oseq) xs"
  by (induction xs) auto

lemma set_requeue_scan: "set (requeue_scan seq oseq rq xs) = insert rq (set xs)"
  by (induction xs) auto

lemma sorted_requeue_scan:
  "sorted (map seq xs) \<Longrightarrow> sorted (map seq (requeue_scan seq (seq rq) rq xs))"
proof (induction xs)
  case Nil
  then show ?case by simp
next
  case (Cons pos rest)
  show ?case
  proof (cases "seq rq \<le> seq pos")
    case True
    with Cons.prems show ?thesis by auto
  next
    case False
    with Cons show ?thesis by (auto simp: set_requeue_scan)
  qed
qed

lemma elv_requeue_marked_fields:
  "ordseq (elv_requeue_marked e q rq) = ordseq (elv_requeue_account e q rq)"
  "queue_head (elv_requeue_marked e q rq) = queue_head (elv_requeue_account e q rq)"
  "in_flight (elv_requeue_marked e q rq) = in_flight (elv_requeue_account e q rq)"
  "calls (elv_requeue_marked e q rq) = calls (elv_requeue_account e q rq)"
  "REQ_STARTED \<notin> flags (rqs (elv_requeue_marked e q rq) rq)"
  "REQ_SOFTBARRIER \<in> flags (rqs (elv_requeue_marked e q rq) rq)"
  by (simp_all add: elv_requeue_marked_def rq_set_flag_def rq_clear_flag_def)

lemma elv_requeue_request_front:
  "ordseq (elv_requeue_account e q rq) = 0 \<Longrightarrow>
     elv_requeue_request e x q rq
       = Inr (elv_insert_unplug x True
           ((elv_requeue_marked e q rq)\<lparr>queue_head := rq # queue_head (elv_requeue_account e q rq)\<rparr>))"
  by (simp add: elv_requeue_request_def elv_insert_def elv_requeue_marked_def Let_def
      rq_set_flag_def rq_clear_flag_def)

lemma elv_requeue_request_ordered:
  "ordseq (elv_requeue_account e q rq) \<noteq> 0 \<Longrightarrow>
     elv_requeue_request e x q rq
       = Inr ((elv_requeue_marked e q rq)\<lparr>queue_head :=
           requeue_scan (blk_ordered_req_seq x (elv_requeue_marked e q rq))
             (blk_ordered_req_seq x (elv_requeue_marked e q rq) rq) rq
             (queue_head (elv_requeue_account e q rq))\<rparr>)"
  by (simp add: elv_requeue_request_def elv_insert_def elv_requeue_marked_def Let_def
      rq_set_flag_def rq_clear_flag_def elv_insert_unplug_def)

text \<open>
  C7, as the code has it. \<open>elv_requeue_account e q rq\<close> is the queue after the
  accounting: the in-flight count is one lower for an accounted request (started, and a
  filesystem request) and unchanged for any other, as long as the policy's deactivation
  hook leaves the count alone. The request then loses its started flag and becomes a soft
  barrier. With no barrier sequence active it is put at the head of the dispatch list
  (the unplug test follows). With a sequence active it is put before the first request
  whose sequence is not below its own; a dispatch list in ascending sequence stays so,
  nothing is called, and so no unplug is forced.
\<close>

theorem elv_requeue_request_rule:
  assumes hook: "\<forall>f qa. elevator_deactivate_req_fn e = Some f \<longrightarrow> in_flight (f qa rq) = in_flight qa"
  shows "in_flight (elv_requeue_account e q rq)
           = (if blk_account_rq (rqs q rq) then in_flight q - 1 else in_flight q)
     \<and> REQ_STARTED \<notin> flags (rqs (elv_requeue_marked e q rq) rq)
     \<and> REQ_SOFTBARRIER \<in> flags (rqs (elv_requeue_marked e q rq) rq)
     \<and> (ordseq (elv_requeue_account e q rq) = 0 \<longrightarrow>
          elv_requeue_request e x q rq
            = Inr (elv_insert_unplug x True
                ((elv_requeue_marked e q rq)\<lparr>queue_head :=
                    rq # queue_head (elv_requeue_account e q rq)\<rparr>)))
     \<and> (ordseq (elv_requeue_account e q rq) \<noteq> 0 \<longrightarrow>
          (\<exists>q'. elv_requeue_request e x q rq = Inr q'
             \<and> queue_head q'
                 = takeWhile (\<lambda>p. blk_ordered_req_seq x (elv_requeue_marked e q rq) p
                                   < blk_ordered_req_seq x (elv_requeue_marked e q rq) rq)
                     (queue_head (elv_requeue_account e q rq))
                   @ rq # dropWhile (\<lambda>p. blk_ordered_req_seq x (elv_requeue_marked e q rq) p
                                   < blk_ordered_req_seq x (elv_requeue_marked e q rq) rq)
                     (queue_head (elv_requeue_account e q rq))
             \<and> (sorted (map (blk_ordered_req_seq x (elv_requeue_marked e q rq))
                          (queue_head (elv_requeue_account e q rq)))
                 \<longrightarrow> sorted (map (blk_ordered_req_seq x (elv_requeue_marked e q rq)) (queue_head q')))
             \<and> REQ_STARTED \<notin> flags (rqs q' rq)
             \<and> in_flight q' = in_flight (elv_requeue_account e q rq)
             \<and> calls q' = calls (elv_requeue_account e q rq)))"
proof -
  have count: "in_flight (elv_requeue_account e q rq)
           = (if blk_account_rq (rqs q rq) then in_flight q - 1 else in_flight q)"
    using hook by (simp add: elv_requeue_account_def Let_def split: option.splits)
  have front: "ordseq (elv_requeue_account e q rq) = 0 \<longrightarrow>
          elv_requeue_request e x q rq
            = Inr (elv_insert_unplug x True
                ((elv_requeue_marked e q rq)\<lparr>queue_head :=
                    rq # queue_head (elv_requeue_account e q rq)\<rparr>))"
    by (simp add: elv_requeue_request_front)
  have ordered: "ordseq (elv_requeue_account e q rq) \<noteq> 0 \<longrightarrow>
          (\<exists>q'. elv_requeue_request e x q rq = Inr q'
             \<and> queue_head q'
                 = takeWhile (\<lambda>p. blk_ordered_req_seq x (elv_requeue_marked e q rq) p
                                   < blk_ordered_req_seq x (elv_requeue_marked e q rq) rq)
                     (queue_head (elv_requeue_account e q rq))
                   @ rq # dropWhile (\<lambda>p. blk_ordered_req_seq x (elv_requeue_marked e q rq) p
                                   < blk_ordered_req_seq x (elv_requeue_marked e q rq) rq)
                     (queue_head (elv_requeue_account e q rq))
             \<and> (sorted (map (blk_ordered_req_seq x (elv_requeue_marked e q rq))
                          (queue_head (elv_requeue_account e q rq)))
                 \<longrightarrow> sorted (map (blk_ordered_req_seq x (elv_requeue_marked e q rq)) (queue_head q')))
             \<and> REQ_STARTED \<notin> flags (rqs q' rq)
             \<and> in_flight q' = in_flight (elv_requeue_account e q rq)
             \<and> calls q' = calls (elv_requeue_account e q rq))"
    by (simp add: elv_requeue_request_ordered elv_requeue_marked_fields sorted_requeue_scan
        requeue_scan_eq [symmetric])
  from count front ordered elv_requeue_marked_fields(5,6) [of e q rq] show ?thesis by blast
qed

theorem elv_requeue_request_rule_witness:
  "in_flight (elv_requeue_account ex_ops
       (ex_queue\<lparr>rqs := (\<lambda>p. ex_rq\<lparr>flags := {REQ_CMD, REQ_STARTED}\<rparr>),
                 queue_head := [0, 1], in_flight := 1, ordseq := 1\<rparr>) 5) = 0
   \<and> (\<exists>q'. elv_requeue_request ex_ops ex_ext
              (ex_queue\<lparr>rqs := (\<lambda>p. ex_rq\<lparr>flags := {REQ_CMD, REQ_STARTED}\<rparr>),
                        queue_head := [0, 1], in_flight := 1, ordseq := 1\<rparr>) 5 = Inr q'
          \<and> queue_head q' = [0, 5, 1] \<and> REQ_STARTED \<notin> flags (rqs q' 5)
          \<and> in_flight q' = 0 \<and> calls q' = [])
   \<and> map_sum id queue_head (elv_requeue_request ex_ops ex_ext
              (ex_queue\<lparr>rqs := (\<lambda>p. ex_rq\<lparr>flags := {REQ_CMD, REQ_STARTED}\<rparr>),
                        queue_head := [0, 1], in_flight := 1\<rparr>) 5) = Inr [5, 0, 1]"
proof -
  define Qo where "Qo = ex_queue\<lparr>rqs := (\<lambda>p. ex_rq\<lparr>flags := {REQ_CMD, REQ_STARTED}\<rparr>),
                        queue_head := [0, 1], in_flight := 1, ordseq := 1\<rparr>"
  define Qf where "Qf = ex_queue\<lparr>rqs := (\<lambda>p. ex_rq\<lparr>flags := {REQ_CMD, REQ_STARTED}\<rparr>),
                        queue_head := [0, 1], in_flight := 1\<rparr>"
  have hook: "\<forall>f qa. elevator_deactivate_req_fn ex_ops = Some f \<longrightarrow> in_flight (f qa 5) = in_flight qa"
    by (simp add: ex_ops_def)
  have acc_o: "elv_requeue_account ex_ops Qo 5 = Qo\<lparr>in_flight := 0\<rparr>"
    by (simp add: elv_requeue_account_def blk_account_rq_def blk_rq_started_def
        blk_fs_request_def blk_sorted_rq_def Qo_def ex_queue_def ex_rq_def)
  have acc_f: "elv_requeue_account ex_ops Qf 5 = Qf\<lparr>in_flight := 0\<rparr>"
    by (simp add: elv_requeue_account_def blk_account_rq_def blk_rq_started_def
        blk_fs_request_def blk_sorted_rq_def Qf_def ex_queue_def ex_rq_def)
  have active: "ordseq (elv_requeue_account ex_ops Qo 5) \<noteq> 0"
    by (simp add: acc_o) (simp add: Qo_def ex_queue_def)
  have ascending: "sorted (map (blk_ordered_req_seq ex_ext (elv_requeue_marked ex_ops Qo 5))
        (queue_head (elv_requeue_account ex_ops Qo 5)))"
    by (simp add: acc_o) (simp add: Qo_def ex_queue_def ex_ext_def)
  have place: "takeWhile (\<lambda>p. blk_ordered_req_seq ex_ext (elv_requeue_marked ex_ops Qo 5) p
                                   < blk_ordered_req_seq ex_ext (elv_requeue_marked ex_ops Qo 5) 5)
                     (queue_head (elv_requeue_account ex_ops Qo 5))
                   @ 5 # dropWhile (\<lambda>p. blk_ordered_req_seq ex_ext (elv_requeue_marked ex_ops Qo 5) p
                                   < blk_ordered_req_seq ex_ext (elv_requeue_marked ex_ops Qo 5) 5)
                     (queue_head (elv_requeue_account ex_ops Qo 5)) = [0, 5, 1]"
    by (simp add: acc_o) (simp add: Qo_def ex_queue_def ex_ext_def)
  have idle: "in_flight (elv_requeue_account ex_ops Qo 5) = 0"
    and quiet: "calls (elv_requeue_account ex_ops Qo 5) = []"
    by (simp_all add: acc_o) (simp add: Qo_def ex_queue_def)
  have ordered: "\<exists>q'. elv_requeue_request ex_ops ex_ext Qo 5 = Inr q'
          \<and> queue_head q' = [0, 5, 1] \<and> REQ_STARTED \<notin> flags (rqs q' 5)
          \<and> in_flight q' = 0 \<and> calls q' = []"
    using elv_requeue_request_rule [OF hook, of Qo ex_ext] active place idle quiet
    by auto
  have idle_f: "ordseq (elv_requeue_account ex_ops Qf 5) = 0"
    by (simp add: acc_f) (simp add: Qf_def ex_queue_def)
  have "elv_requeue_request ex_ops ex_ext Qf 5
      = Inr (elv_insert_unplug ex_ext True
                ((elv_requeue_marked ex_ops Qf 5)\<lparr>queue_head :=
                    5 # queue_head (elv_requeue_account ex_ops Qf 5)\<rparr>))"
    using elv_requeue_request_rule [OF hook, of Qf ex_ext] idle_f by blast
  then have front: "map_sum id queue_head (elv_requeue_request ex_ops ex_ext Qf 5) = Inr [5, 0, 1]"
    by (simp add: acc_f elv_insert_unplug_def blk_queue_plugged_def elv_requeue_marked_def
        rq_set_flag_def rq_clear_flag_def)
       (simp add: Qf_def ex_queue_def)
  from idle ordered front show ?thesis
    unfolding Qo_def Qf_def by blast
qed

text \<open>
  The claim as worded has every requeue lower the in-flight count. A started request
  that is not a filesystem request (a packet command) was never counted, and requeueing
  it leaves the count at 1.
\<close>

theorem elv_requeue_request_in_flight_counterexample:
  "REQ_STARTED \<in> flags (ex_rq\<lparr>flags := {REQ_BLOCK_PC, REQ_STARTED}\<rparr>)
   \<and> map_sum id in_flight (elv_requeue_request ex_ops ex_ext
        (ex_queue\<lparr>rqs := (\<lambda>p. ex_rq\<lparr>flags := {REQ_BLOCK_PC, REQ_STARTED}\<rparr>),
                  queue_head := [0, 1], in_flight := 1\<rparr>) 5) = Inr 1"
  by (simp add: elv_requeue_request_def elv_requeue_account_def elv_insert_def
      elv_insert_unplug_def blk_queue_plugged_def blk_account_rq_def blk_rq_started_def
      blk_fs_request_def rq_set_flag_def rq_clear_flag_def Let_def ex_queue_def ex_rq_def)

subsection \<open>The policy switch\<close>











subsection \<open>The unplug test after an insertion\<close>

lemma elv_insert_unplug_over:
  "blk_queue_plugged q \<Longrightarrow> unplug_thresh q < elv_insert_nrq q \<Longrightarrow>
     elv_insert_unplug x True q = call_ext Call_generic_unplug_device (generic_unplug_device x) q"
  by (simp add: elv_insert_unplug_def)

lemma elv_insert_sort_unplug:
  "blk_fs_request (rqs q rq) \<Longrightarrow>
     \<exists>q4. elv_insert e x fuel q rq ELEVATOR_INSERT_SORT = Inr (elv_insert_unplug x True q4)"
  by (auto simp: elv_insert_def Let_def)

text \<open>
  C9 on a plugged queue with no barrier sequence active, four requests admitted, none in
  flight and the threshold at four: a REQUEUE insertion takes the early \<^verbatim>\<open>break\<close> of
  the \<^verbatim>\<open>ordseq == 0\<close> branch, before \<^verbatim>\<open>unplug_it = 0\<close>, and the queue is unplugged
  at once.
\<close>

theorem elv_insert_requeue_unplugs:
  "blk_queue_plugged (ex_queue\<lparr>rq_count := (\<lambda>d. 2), queue_flags := {QUEUE_FLAG_PLUGGED}\<rparr>)
   \<and> ordseq (ex_queue\<lparr>rq_count := (\<lambda>d. 2), queue_flags := {QUEUE_FLAG_PLUGGED}\<rparr>) = 0
   \<and> elv_insert_nrq (ex_queue\<lparr>rq_count := (\<lambda>d. 2), queue_flags := {QUEUE_FLAG_PLUGGED}\<rparr>) = 4
   \<and> unplug_thresh (ex_queue\<lparr>rq_count := (\<lambda>d. 2), queue_flags := {QUEUE_FLAG_PLUGGED}\<rparr>) = 4
   \<and> map_sum id calls
        (elv_insert ex_ops ex_ext 0
           (ex_queue\<lparr>rq_count := (\<lambda>d. 2), queue_flags := {QUEUE_FLAG_PLUGGED}\<rparr>) 5
           ELEVATOR_INSERT_REQUEUE)
      = Inr [Call_generic_unplug_device]"
  by (simp add: elv_insert_def elv_insert_unplug_def elv_insert_nrq_def blk_queue_plugged_def
      rq_set_flag_def call_ext_def Let_def ex_queue_def)

subsection \<open>A dispatched request is never a merge target again\<close>

lemma rq_marked_rqs: "rqs q' = rqs q \<Longrightarrow> rq_marked q' rq = rq_marked q rq"
  by (simp add: rq_marked_def)

lemma rq_marked_call_ext: "rq_marked (call_ext c f q) rq = rq_marked (f q) rq"
  by (simp add: rq_marked_def call_ext_def)

lemma rq_marked_set_flag: "rq_marked q rq \<Longrightarrow> rq_marked (rq_set_flag r f q) rq"
  by (auto simp: rq_marked_def rq_set_flag_def)

lemma rq_marked_set_softbarrier: "rq_marked (rq_set_flag rq REQ_SOFTBARRIER q) rq"
  by (simp add: rq_marked_def rq_set_flag_def)

lemma rq_marked_set_started: "rq_marked (rq_set_flag rq REQ_STARTED q) rq"
  by (simp add: rq_marked_def rq_set_flag_def)

lemma rq_marked_clear_other:
  "r \<noteq> rq \<Longrightarrow> rq_marked (rq_clear_flag r f q) rq = rq_marked q rq"
  by (simp add: rq_marked_def rq_clear_flag_def)

lemma elv_rq_merge_ok_marked: "rq_marked q rq \<Longrightarrow> \<not> elv_rq_merge_ok (rqs q rq) b"
  by (auto simp: rq_marked_def elv_rq_merge_ok_def rq_mergeable_def RQ_NOMERGE_FLAGS_def)

lemma elv_rq_merge_ok_started: "REQ_STARTED \<in> flags r \<Longrightarrow> \<not> elv_rq_merge_ok r b"
  by (auto simp: elv_rq_merge_ok_def rq_mergeable_def RQ_NOMERGE_FLAGS_def)

lemma env_keeps_mark_conj:
  assumes "env_keeps_mark e x rq" and "rq_marked q rq"
  shows "(\<forall>f r. elevator_merged_fn e = Some f \<longrightarrow> rq_marked (f q r) rq)
        \<and> (\<forall>f r n. elevator_merge_req_fn e = Some f \<longrightarrow> rq_marked (f q r n) rq)
        \<and> (\<forall>force. rq_marked (fst (elevator_dispatch_fn e q force)) rq)
        \<and> (\<forall>r. rq_marked (elevator_add_req_fn e q r) rq)
        \<and> (\<forall>f r. elevator_activate_req_fn e = Some f \<longrightarrow> rq_marked (f q r) rq)
        \<and> (\<forall>f r. elevator_deactivate_req_fn e = Some f \<longrightarrow> rq_marked (f q r) rq)
        \<and> (\<forall>f r. elevator_completed_req_fn e = Some f \<longrightarrow> rq_marked (f q r) rq)
        \<and> rq_marked (request_fn x q) rq
        \<and> (\<forall>f r. prep_rq_fn x = Some f \<longrightarrow> rq_marked (fst (f q r)) rq)
        \<and> rq_marked (blk_plug_device x q) rq
        \<and> rq_marked (blk_remove_plug x q) rq
        \<and> rq_marked (generic_unplug_device x q) rq
        \<and> (\<forall>s err. rq_marked (blk_ordered_complete_seq x q s err) rq)
        \<and> (\<forall>r. rq_marked (fst (blk_do_ordered x q r)) rq)
        \<and> (\<forall>r u n. rq_marked (end_that_request_chunk x q r u n) rq)
        \<and> (\<forall>r u. rq_marked (end_that_request_last x q r u) rq)"
  using assms(1) [unfolded env_keeps_mark_def, THEN spec, THEN mp, OF assms(2)] .

lemma env_keeps_markD:
  assumes "env_keeps_mark e x rq" and "rq_marked q rq"
  shows "elevator_merged_fn e = Some f1 \<Longrightarrow> rq_marked (f1 q r) rq"
    and "elevator_merge_req_fn e = Some f2 \<Longrightarrow> rq_marked (f2 q r n) rq"
    and "rq_marked (fst (elevator_dispatch_fn e q force)) rq"
    and "rq_marked (elevator_add_req_fn e q r) rq"
    and "elevator_activate_req_fn e = Some f3 \<Longrightarrow> rq_marked (f3 q r) rq"
    and "elevator_deactivate_req_fn e = Some f3 \<Longrightarrow> rq_marked (f3 q r) rq"
    and "elevator_completed_req_fn e = Some f3 \<Longrightarrow> rq_marked (f3 q r) rq"
    and "rq_marked (request_fn x q) rq"
    and "prep_rq_fn x = Some f4 \<Longrightarrow> rq_marked (fst (f4 q r)) rq"
    and "rq_marked (blk_plug_device x q) rq"
    and "rq_marked (blk_remove_plug x q) rq"
    and "rq_marked (generic_unplug_device x q) rq"
    and "rq_marked (blk_ordered_complete_seq x q s err) rq"
    and "rq_marked (fst (blk_do_ordered x q r)) rq"
    and "rq_marked (end_that_request_chunk x q r u nb) rq"
    and "rq_marked (end_that_request_last x q r u) rq"
  using env_keeps_mark_conj [OF assms] by simp_all

lemma rq_marked_unplug:
  "env_keeps_mark e x rq \<Longrightarrow> rq_marked q rq \<Longrightarrow> rq_marked (elv_insert_unplug x u q) rq"
  by (simp add: elv_insert_unplug_def rq_marked_call_ext env_keeps_markD)

lemma rq_marked_drain:
  "env_keeps_mark e x rq \<Longrightarrow> elv_drain_elevator e n q = Some q' \<Longrightarrow> rq_marked q rq
     \<Longrightarrow> rq_marked q' rq"
proof (induction n arbitrary: q)
  case 0
  then show ?case by simp
next
  case (Suc n)
  obtain q1 r where d: "elevator_dispatch_fn e q 1 = (q1, r)"
    by (cases "elevator_dispatch_fn e q 1")
  from Suc.prems(1,3) have m1: "rq_marked (fst (elevator_dispatch_fn e q 1)) rq"
    by (rule env_keeps_markD)
  with d have m2: "rq_marked q1 rq" by simp
  from Suc.prems(2) d
  have eq: "(if r \<noteq> 0 then elv_drain_elevator e n q1 else Some q1) = Some q'"
    by simp
  show ?case
  proof (cases "r = 0")
    case True
    with eq m2 show ?thesis by simp
  next
    case False
    with eq have "elv_drain_elevator e n q1 = Some q'" by simp
    from Suc.IH [OF Suc.prems(1) this m2] show ?thesis .
  qed
qed

lemma rq_marked_elv_insert:
  assumes env: "env_keeps_mark e x rq"
    and res: "elv_insert e x fuel q r wh = Inr q'"
    and m: "rq_marked q rq \<or> (r = rq \<and> wh \<noteq> ELEVATOR_INSERT_SORT)"
  shows "rq_marked q' rq"
proof (cases wh)
  case ELEVATOR_INSERT_FRONT
  from m have "rq_marked (rq_set_flag r REQ_SOFTBARRIER q) rq"
    using ELEVATOR_INSERT_FRONT rq_marked_set_flag rq_marked_set_softbarrier by blast
  then have "rq_marked ((rq_set_flag r REQ_SOFTBARRIER q)
      \<lparr>queue_head := r # queue_head (rq_set_flag r REQ_SOFTBARRIER q)\<rparr>) rq"
    by (simp add: rq_marked_def)
  from rq_marked_unplug [OF env this] res ELEVATOR_INSERT_FRONT show ?thesis
    by (auto simp: elv_insert_def Let_def)
next
  case ELEVATOR_INSERT_BACK
  from m have m1: "rq_marked (rq_set_flag r REQ_SOFTBARRIER q) rq"
    using ELEVATOR_INSERT_BACK rq_marked_set_flag rq_marked_set_softbarrier by blast
  from res ELEVATOR_INSERT_BACK obtain q2 where
    d: "elv_drain_elevator e fuel (rq_set_flag r REQ_SOFTBARRIER q) = Some q2"
    and q': "q' = elv_insert_unplug x True
        (call_ext Call_request_fn (request_fn x)
           (call_ext Call_blk_remove_plug (blk_remove_plug x)
              (q2\<lparr>queue_head := queue_head q2 @ [r]\<rparr>)))"
    by (auto simp: elv_insert_def Let_def split: option.splits)
  from rq_marked_drain [OF env d m1] have "rq_marked (q2\<lparr>queue_head := queue_head q2 @ [r]\<rparr>) rq"
    by (simp add: rq_marked_def)
  with env have "rq_marked (blk_remove_plug x (q2\<lparr>queue_head := queue_head q2 @ [r]\<rparr>)) rq"
    by (rule env_keeps_markD)
  then have "rq_marked (call_ext Call_blk_remove_plug (blk_remove_plug x)
              (q2\<lparr>queue_head := queue_head q2 @ [r]\<rparr>)) rq"
    by (simp add: rq_marked_call_ext)
  with env have "rq_marked (request_fn x (call_ext Call_blk_remove_plug (blk_remove_plug x)
              (q2\<lparr>queue_head := queue_head q2 @ [r]\<rparr>))) rq"
    by (rule env_keeps_markD)
  then have "rq_marked (call_ext Call_request_fn (request_fn x)
           (call_ext Call_blk_remove_plug (blk_remove_plug x)
              (q2\<lparr>queue_head := queue_head q2 @ [r]\<rparr>))) rq"
    by (simp add: rq_marked_call_ext)
  from rq_marked_unplug [OF env this] q' show ?thesis by simp
next
  case ELEVATOR_INSERT_SORT
  with m have m0: "rq_marked q rq" by simp
  from res ELEVATOR_INSERT_SORT obtain q3 where
    q': "q' = elv_insert_unplug x True (elevator_add_req_fn e q3 r)"
    and q3: "rqs q3 = rqs (rq_set_flag r REQ_SORTED q)"
    by (auto simp: elv_insert_def Let_def split: if_splits)
  from m0 have "rq_marked (rq_set_flag r REQ_SORTED q) rq"
    by (rule rq_marked_set_flag)
  with q3 have "rq_marked q3 rq" by (simp add: rq_marked_def)
  with env have "rq_marked (elevator_add_req_fn e q3 r) rq"
    by (rule env_keeps_markD)
  from rq_marked_unplug [OF env this] q' show ?thesis by simp
next
  case ELEVATOR_INSERT_REQUEUE
  from m have m1: "rq_marked (rq_set_flag r REQ_SOFTBARRIER q) rq"
    using ELEVATOR_INSERT_REQUEUE rq_marked_set_flag rq_marked_set_softbarrier by blast
  show ?thesis
  proof (cases "ordseq q = 0")
    case True
    from m1 have m2: "rq_marked ((rq_set_flag r REQ_SOFTBARRIER q)
      \<lparr>queue_head := r # queue_head (rq_set_flag r REQ_SOFTBARRIER q)\<rparr>) rq"
      by (simp add: rq_marked_def)
    have "ordseq (rq_set_flag r REQ_SOFTBARRIER q) = 0"
      using True by (simp add: rq_set_flag_def)
    with rq_marked_unplug [OF env m2] res ELEVATOR_INSERT_REQUEUE show ?thesis
      by (auto simp: elv_insert_def Let_def)
  next
    case False
    with res ELEVATOR_INSERT_REQUEUE have "rqs q' = rqs (rq_set_flag r REQ_SOFTBARRIER q)"
      by (auto simp: elv_insert_def Let_def rq_set_flag_def elv_insert_unplug_def)
    with m1 show ?thesis by (simp add: rq_marked_def)
  qed
qed

lemma rq_marked_elv_add_where:
  "rq_marked q rq \<Longrightarrow> rq_marked (fst (elv_add_where q r wh)) rq"
  by (auto simp: elv_add_where_def Let_def rq_marked_def rq_set_flag_def)

lemma rq_marked_uu_elv_add_request:
  assumes env: "env_keeps_mark e x rq"
    and res: "uu_elv_add_request e x fuel q r wh plug = Inr q'"
    and m: "rq_marked q rq"
  shows "rq_marked q' rq"
proof -
  obtain q1 wh1 where w: "elv_add_where q r wh = (q1, wh1)"
    by (cases "elv_add_where q r wh")
  from rq_marked_elv_add_where [OF m, of r wh] w have m1: "rq_marked q1 rq" by simp
  define q2 where "q2 = (if plug then call_ext Call_blk_plug_device (blk_plug_device x) q1 else q1)"
  from env m1 have "rq_marked (blk_plug_device x q1) rq"
    by (rule env_keeps_markD)
  with m1 have m2: "rq_marked q2 rq"
    by (simp add: q2_def rq_marked_call_ext)
  from res w have "elv_insert e x fuel q2 r wh1 = Inr q'"
    by (simp add: uu_elv_add_request_def q2_def Let_def)
  from rq_marked_elv_insert [OF env this] m2 show ?thesis by blast
qed

lemma rq_marked_requeue_account:
  "env_keeps_mark e x rq \<Longrightarrow> rq_marked q rq \<Longrightarrow> rq_marked (elv_requeue_account e q r) rq"
proof -
  assume env: "env_keeps_mark e x rq" and m: "rq_marked q rq"
  then have m1: "rq_marked (q\<lparr>in_flight := in_flight q - 1\<rparr>) rq"
    by (simp add: rq_marked_def)
  with env have "\<forall>f. elevator_deactivate_req_fn e = Some f
      \<longrightarrow> rq_marked (f (q\<lparr>in_flight := in_flight q - 1\<rparr>) r) rq"
    by (simp add: env_keeps_markD)
  with m m1 show ?thesis
    by (simp add: elv_requeue_account_def Let_def split: option.splits)
qed

lemma rq_marked_elv_requeue_request:
  assumes env: "env_keeps_mark e x rq"
    and res: "elv_requeue_request e x q r = Inr q'"
    and m: "rq_marked q rq \<or> r = rq"
  shows "rq_marked q' rq"
proof -
  from res have ins: "elv_insert e x 0 (rq_clear_flag r REQ_STARTED (elv_requeue_account e q r)) r
      ELEVATOR_INSERT_REQUEUE = Inr q'"
    by (simp add: elv_requeue_request_def Let_def)
  show ?thesis
  proof (cases "r = rq")
    case True
    with rq_marked_elv_insert [OF env ins] show ?thesis by simp
  next
    case False
    with m have "rq_marked q rq" by simp
    from rq_marked_requeue_account [OF env this, of r] False
    have "rq_marked (rq_clear_flag r REQ_STARTED (elv_requeue_account e q r)) rq"
      by (simp add: rq_marked_clear_other)
    with rq_marked_elv_insert [OF env ins] show ?thesis by simp
  qed
qed

lemma rq_marked_uu_elv_next_request:
  "env_keeps_mark e x rq \<Longrightarrow> uu_elv_next_request e x n q = Inr (q', r) \<Longrightarrow> rq_marked q rq
     \<Longrightarrow> rq_marked q' rq"
proof (induction n arbitrary: q)
  case 0
  then show ?case by simp
next
  case (Suc n)
  show ?case
  proof (cases "queue_head q")
    case Nil
    obtain q1 ret where d: "elevator_dispatch_fn e q 0 = (q1, ret)"
      by (cases "elevator_dispatch_fn e q 0")
    from Suc.prems(1,3) have "rq_marked (fst (elevator_dispatch_fn e q 0)) rq"
      by (rule env_keeps_markD)
    with d have m1: "rq_marked q1 rq" by simp
    from Suc.prems(2) Nil d
    have eq: "(if ret = 0 then Inr (q1, None) else uu_elv_next_request e x n q1) = Inr (q', r)"
      by simp
    show ?thesis
    proof (cases "ret = 0")
      case True
      with eq m1 show ?thesis by simp
    next
      case False
      with eq have "uu_elv_next_request e x n q1 = Inr (q', r)" by simp
      from Suc.IH [OF Suc.prems(1) this m1] show ?thesis .
    qed
  next
    case (Cons h t)
    obtain q1 r1 ret where d: "blk_do_ordered x q h = (q1, r1, ret)"
      by (cases "blk_do_ordered x q h")
    from Suc.prems(1,3) have "rq_marked (fst (blk_do_ordered x q h)) rq"
      by (rule env_keeps_markD)
    with d have m1: "rq_marked q1 rq" by simp
    from Suc.prems(2) Cons d
    have eq: "(if ret \<noteq> 0 then Inr (q1, r1) else uu_elv_next_request e x n q1) = Inr (q', r)"
      by simp
    show ?thesis
    proof (cases "ret = 0")
      case False
      with eq m1 show ?thesis by simp
    next
      case True
      with eq have "uu_elv_next_request e x n q1 = Inr (q', r)" by simp
      from Suc.IH [OF Suc.prems(1) this m1] show ?thesis .
    qed
  qed
qed

lemma rq_marked_next_request_start:
  assumes env: "env_keeps_mark e x rq" and m: "rq_marked q rq"
  shows "rq_marked (elv_next_request_start e q r) rq"
proof -
  define qa where "qa = (if blk_sorted_rq (rqs q r) then
                               (case elevator_activate_req_fn e of
                                  Some f \<Rightarrow> f q r
                                | None \<Rightarrow> q)
                             else q)"
  have ma: "rq_marked qa rq"
    using env_keeps_markD(5) [OF env m] m by (simp add: qa_def split: option.splits)
  define q2 where "q2 = (if REQ_STARTED \<notin> flags (rqs q r) then rq_set_flag r REQ_STARTED qa else q)"
  have m2: "rq_marked q2 rq"
    using ma m by (simp add: q2_def rq_marked_set_flag)
  have "rqs (elv_next_request_start e q r) = rqs q2"
    by (simp add: elv_next_request_start_def Let_def q2_def qa_def)
  with m2 show ?thesis by (simp add: rq_marked_def)
qed

lemma started_next_request_start:
  "REQ_STARTED \<in> flags (rqs (elv_next_request_start e q r) r)"
  by (simp add: elv_next_request_start_def Let_def rq_set_flag_def)

lemma rq_marked_elv_dequeue_request:
  "elv_dequeue_request q r = Inr q' \<Longrightarrow> rq_marked q' rq = rq_marked q rq"
  by (auto simp: elv_dequeue_request_def Let_def rq_marked_def split: if_splits)

lemma rq_marked_next_request_kill:
  assumes env: "env_keeps_mark e x rq"
    and res: "elv_next_request_kill x q r = Inr q'"
    and m: "rq_marked q rq"
  shows "rq_marked q' rq"
proof -
  from res obtain q1 nb where dq: "elv_dequeue_request q r = Inr q1"
    and q': "q' = call_ext (Call_end_that_request_last r 0) (\<lambda>q. end_that_request_last x q r 0)
                 (call_ext (Call_end_that_request_chunk r 0 nb)
                    (\<lambda>q. end_that_request_chunk x q r 0 nb) (rq_set_flag r REQ_QUIET q1))"
    by (auto simp: elv_next_request_kill_def Let_def split: sum.splits)
  from dq m have "rq_marked (rq_set_flag r REQ_QUIET q1) rq"
    by (simp add: rq_marked_elv_dequeue_request rq_marked_set_flag)
  with env have "rq_marked (end_that_request_chunk x (rq_set_flag r REQ_QUIET q1) r 0 nb) rq"
    by (rule env_keeps_markD)
  then have "rq_marked (call_ext (Call_end_that_request_chunk r 0 nb)
                    (\<lambda>q. end_that_request_chunk x q r 0 nb) (rq_set_flag r REQ_QUIET q1)) rq"
    by (simp add: rq_marked_call_ext)
  with env have "rq_marked (end_that_request_last x (call_ext (Call_end_that_request_chunk r 0 nb)
                    (\<lambda>q. end_that_request_chunk x q r 0 nb) (rq_set_flag r REQ_QUIET q1)) r 0) rq"
    by (rule env_keeps_markD)
  with q' show ?thesis by (simp add: rq_marked_call_ext)
qed


lemma rq_marked_elv_next_request:
  "env_keeps_mark e x rq \<Longrightarrow> elv_next_request e x n q = Inr (q', r) \<Longrightarrow> rq_marked q rq
     \<Longrightarrow> rq_marked q' rq"
proof (induction n arbitrary: q)
  case 0
  then show ?case by simp
next
  case (Suc n)
  from Suc.prems(2) obtain q1 r1 where sel: "uu_elv_next_request e x (Suc n) q = Inr (q1, r1)"
    by (cases "uu_elv_next_request e x (Suc n) q") (auto simp del: uu_elv_next_request.simps)
  from rq_marked_uu_elv_next_request [OF Suc.prems(1) sel Suc.prems(3)]
  have m1: "rq_marked q1 rq" .
  show ?case
  proof (cases r1)
    case None
    with Suc.prems(2) sel have "q' = q1" by (simp del: uu_elv_next_request.simps)
    with m1 show ?thesis by simp
  next
    case (Some h)
    define q3 where "q3 = elv_next_request_start e q1 h"
    have m3: "rq_marked q3 rq"
      unfolding q3_def using Suc.prems(1) m1 by (rule rq_marked_next_request_start)
    show ?thesis
    proof (cases "REQ_DONTPREP \<in> flags (rqs q3 h) \<or> prep_rq_fn x = None")
      case True
      with Suc.prems(2) sel Some have "q' = q3"
        by (auto simp del: uu_elv_next_request.simps simp: q3_def Let_def split: if_splits)
      with m3 show ?thesis by simp
    next
      case False
      then obtain prep where prep: "prep_rq_fn x = Some prep" and np: "REQ_DONTPREP \<notin> flags (rqs q3 h)"
        by auto
      obtain q4 ret where p: "prep q3 h = (q4, ret)" by (cases "prep q3 h")
      from env_keeps_markD(9) [OF Suc.prems(1) m3 prep, of h] p have m4: "rq_marked q4 rq"
        by simp
      from Suc.prems(2) sel Some prep np p
      have eq: "(if ret = BLKPREP_OK then Inr (q4, Some h)
                 else if ret = BLKPREP_DEFER then Inr (q4, None)
                 else if ret = BLKPREP_KILL then
                   (case elv_next_request_kill x q4 h of
                      Inl f \<Rightarrow> Inl f
                    | Inr q5 \<Rightarrow> elv_next_request e x n q5)
                 else Inr (q4, Some h)) = Inr (q', r)"
        by (simp del: uu_elv_next_request.simps add: q3_def [symmetric] Let_def)
      show ?thesis
      proof (cases "ret = BLKPREP_KILL \<and> ret \<noteq> BLKPREP_OK \<and> ret \<noteq> BLKPREP_DEFER")
        case True
        with eq obtain q5 where k: "elv_next_request_kill x q4 h = Inr q5"
          and rec: "elv_next_request e x n q5 = Inr (q', r)"
          by (auto split: sum.splits)
        from rq_marked_next_request_kill [OF Suc.prems(1) k m4] have "rq_marked q5 rq" .
        from Suc.IH [OF Suc.prems(1) rec this] show ?thesis .
      next
        case False
        with eq have "q' = q4" by (auto split: if_splits)
        with m4 show ?thesis by simp
      qed
    qed
  qed
qed

lemma started_elv_next_request:
  "prep_keeps_started x rq \<Longrightarrow> elv_next_request e x n q = Inr (q', Some rq)
     \<Longrightarrow> REQ_STARTED \<in> flags (rqs q' rq)"
proof (induction n arbitrary: q)
  case 0
  then show ?case by simp
next
  case (Suc n)
  from Suc.prems(2) obtain q1 r1 where sel: "uu_elv_next_request e x (Suc n) q = Inr (q1, r1)"
    by (cases "uu_elv_next_request e x (Suc n) q") (auto simp del: uu_elv_next_request.simps)
  show ?case
  proof (cases r1)
    case None
    with Suc.prems(2) sel show ?thesis by (simp del: uu_elv_next_request.simps)
  next
    case (Some h)
    define q3 where "q3 = elv_next_request_start e q1 h"
    have s3: "REQ_STARTED \<in> flags (rqs q3 h)"
      unfolding q3_def by (rule started_next_request_start)
    show ?thesis
    proof (cases "REQ_DONTPREP \<in> flags (rqs q3 h) \<or> prep_rq_fn x = None")
      case True
      with Suc.prems(2) sel Some have "q' = q3 \<and> rq = h"
        by (auto simp del: uu_elv_next_request.simps simp: q3_def Let_def split: if_splits)
      with s3 show ?thesis by simp
    next
      case False
      then obtain prep where prep: "prep_rq_fn x = Some prep" and np: "REQ_DONTPREP \<notin> flags (rqs q3 h)"
        by auto
      obtain q4 ret where p: "prep q3 h = (q4, ret)" by (cases "prep q3 h")
      from Suc.prems(2) sel Some prep np p
      have eq: "(if ret = BLKPREP_OK then Inr (q4, Some h)
                 else if ret = BLKPREP_DEFER then Inr (q4, None)
                 else if ret = BLKPREP_KILL then
                   (case elv_next_request_kill x q4 h of
                      Inl f \<Rightarrow> Inl f
                    | Inr q5 \<Rightarrow> elv_next_request e x n q5)
                 else Inr (q4, Some h)) = Inr (q', Some rq)"
        by (simp del: uu_elv_next_request.simps add: q3_def [symmetric] Let_def)
      show ?thesis
      proof (cases "ret = BLKPREP_KILL \<and> ret \<noteq> BLKPREP_OK \<and> ret \<noteq> BLKPREP_DEFER")
        case True
        with eq obtain q5 where rec: "elv_next_request e x n q5 = Inr (q', Some rq)"
          by (auto split: sum.splits)
        from Suc.IH [OF Suc.prems(1) rec] show ?thesis .
      next
        case False
        with eq have "q' = q4 \<and> rq = h" by (auto split: if_splits)
        moreover from Suc.prems(1) prep s3 have "REQ_STARTED \<in> flags (rqs (fst (prep q3 h)) h)"
          unfolding prep_keeps_started_def
          using \<open>q' = q4 \<and> rq = h\<close> by blast
        ultimately show ?thesis using p by simp
      qed
    qed
  qed
qed

lemma rq_marked_elv_completed_request:
  assumes env: "env_keeps_mark e x rq"
    and res: "elv_completed_request e x q r = Inr q'"
    and m: "rq_marked q rq"
  shows "rq_marked q' rq"
proof -
  define q1 where "q1 = elv_completed_account e q r"
  from m have "rq_marked (q\<lparr>in_flight := in_flight q - 1\<rparr>) rq"
    by (simp add: rq_marked_def)
  from env_keeps_markD(7) [OF env this] this m have m1: "rq_marked q1 rq"
    by (simp add: q1_def elv_completed_account_def Let_def split: option.splits)
  show ?thesis
  proof (cases "q' = q1")
    case True
    with m1 show ?thesis by simp
  next
    case False
    with res have q': "q' = call_ext Call_request_fn (request_fn x)
        (call_ext (Call_blk_ordered_complete_seq QUEUE_ORDSEQ_DRAIN 0)
           (\<lambda>q. blk_ordered_complete_seq x q QUEUE_ORDSEQ_DRAIN 0) q1)"
      by (auto simp: elv_completed_request_def Let_def q1_def [symmetric]
          split: if_splits list.splits)
    from env_keeps_markD(13) [OF env m1]
    have "rq_marked (call_ext (Call_blk_ordered_complete_seq QUEUE_ORDSEQ_DRAIN 0)
           (\<lambda>q. blk_ordered_complete_seq x q QUEUE_ORDSEQ_DRAIN 0) q1) rq"
      by (simp add: rq_marked_call_ext)
    from env_keeps_markD(8) [OF env this] q' show ?thesis
      by (simp add: rq_marked_call_ext)
  qed
qed

lemma rq_marked_elv_dispatch_sort: "rq_marked (elv_dispatch_sort q r) rq = rq_marked q rq"
  by (simp add: elv_dispatch_sort_def Let_def rq_marked_def)

lemma rq_marked_elv_merged_request:
  "env_keeps_mark e x rq \<Longrightarrow> rq_marked q rq \<Longrightarrow> rq_marked (elv_merged_request e q r) rq"
  using env_keeps_markD(1) [of e x rq q]
  by (simp add: elv_merged_request_def Let_def rq_marked_def split: option.splits)

lemma rq_marked_elv_merge_requests:
  "env_keeps_mark e x rq \<Longrightarrow> rq_marked q rq \<Longrightarrow> rq_marked (elv_merge_requests e q r nxt) rq"
  using env_keeps_markD(2) [of e x rq q]
  by (simp add: elv_merge_requests_def Let_def rq_marked_def split: option.splits)

lemma rq_marked_elv_op_step:
  assumes env: "env_keeps_mark e x rq"
    and res: "elv_op_step e x fuel q op = Inr q'"
    and m: "rq_marked q rq"
  shows "rq_marked q' rq"
proof (cases op)
  case (Op_add_request r wh plug)
  with res rq_marked_uu_elv_add_request [OF env _ m] show ?thesis by simp
next
  case (Op_requeue_request r)
  with res rq_marked_elv_requeue_request [OF env, of q r q'] m show ?thesis by simp
next
  case Op_next_request
  with res obtain r where "elv_next_request e x fuel q = Inr (q', r)"
    by (cases "elv_next_request e x fuel q") auto
  from rq_marked_elv_next_request [OF env this m] show ?thesis .
next
  case (Op_dequeue_request r)
  with res m show ?thesis by (simp add: rq_marked_elv_dequeue_request)
next
  case (Op_completed_request r)
  with res rq_marked_elv_completed_request [OF env _ m] show ?thesis by simp
next
  case (Op_dispatch_sort r)
  with res m show ?thesis by (auto simp: rq_marked_elv_dispatch_sort)
next
  case (Op_merged_request r)
  with res rq_marked_elv_merged_request [OF env m] show ?thesis by auto
next
  case (Op_merge_requests r nxt)
  with res rq_marked_elv_merge_requests [OF env m] show ?thesis by auto
qed

lemma rq_marked_elv_run:
  "env_keeps_mark e x rq \<Longrightarrow> elv_run e x fuel q ops = Inr q' \<Longrightarrow> rq_marked q rq
     \<Longrightarrow> rq_marked q' rq"
proof (induction ops arbitrary: q)
  case Nil
  then show ?case by simp
next
  case (Cons op ops)
  from Cons.prems(2) obtain q1 where step: "elv_op_step e x fuel q op = Inr q1"
    and rest: "elv_run e x fuel q1 ops = Inr q'"
    by (auto split: sum.splits)
  from rq_marked_elv_op_step [OF Cons.prems(1) step Cons.prems(3)] have "rq_marked q1 rq" .
  from Cons.IH [OF Cons.prems(1) rest this] show ?case .
qed

text \<open>
  C10. A request that \<open>elv_next_request\<close> returns has its started flag set, as long as
  the driver's prepare routine does not clear it. A request whose started flag is set
  fails the eligibility test. And whatever entry points of elevator.c run afterwards, in
  any order, the returned request fails it for good: requeueing clears the started flag,
  but the REQUEUE insertion makes the request a soft barrier before it is visible again,
  and nothing in elevator.c clears that. The code around elevator.c is assumed not to
  take either mark off the request.
\<close>

theorem dispatched_never_merge_target:
  assumes env: "env_keeps_mark e x rq" and prep: "prep_keeps_started x rq"
    and sel: "elv_next_request e x fuel q = Inr (q', Some rq)"
  shows "REQ_STARTED \<in> flags (rqs q' rq)
     \<and> (\<forall>r b. REQ_STARTED \<in> flags r \<longrightarrow>
           \<not> elv_rq_merge_ok r b \<and> elv_try_merge r b = ELEVATOR_NO_MERGE)
     \<and> (\<forall>fuel' ops q'' b. elv_run e x fuel' q' ops = Inr q'' \<longrightarrow>
           \<not> elv_rq_merge_ok (rqs q'' rq) b
           \<and> elv_try_merge (rqs q'' rq) b = ELEVATOR_NO_MERGE)"
proof -
  from started_elv_next_request [OF prep sel] have st: "REQ_STARTED \<in> flags (rqs q' rq)" .
  then have m: "rq_marked q' rq" by (simp add: rq_marked_def)
  have started: "\<not> elv_rq_merge_ok r b \<and> elv_try_merge r b = ELEVATOR_NO_MERGE"
    if "REQ_STARTED \<in> flags r" for r b
    using that elv_rq_merge_ok_started [of r b] by (simp add: elv_try_merge_def)
  have later: "\<not> elv_rq_merge_ok (rqs q'' rq) b
           \<and> elv_try_merge (rqs q'' rq) b = ELEVATOR_NO_MERGE"
    if "elv_run e x fuel' q' ops = Inr q''" for fuel' ops q'' b
    using elv_rq_merge_ok_marked [OF rq_marked_elv_run [OF env that m], of b]
    by (simp add: elv_try_merge_def)
  from st started later show ?thesis by blast
qed

theorem dispatched_never_merge_target_witness:
  "env_keeps_mark ex_ops ex_ext 1 \<and> prep_keeps_started ex_ext 1
   \<and> elv_try_merge ex_rq ex_bio = ELEVATOR_BACK_MERGE
   \<and> (\<exists>q' q''. elv_next_request ex_ops ex_ext (Suc 0) (ex_queue\<lparr>queue_head := [1]\<rparr>)
                  = Inr (q', Some 1)
          \<and> REQ_STARTED \<in> flags (rqs q' 1)
          \<and> elv_run ex_ops ex_ext (Suc 0) q' [Op_dequeue_request 1, Op_requeue_request 1] = Inr q''
          \<and> flags (rqs q'' 1) = {REQ_SOFTBARRIER, REQ_CMD}
          \<and> elv_try_merge (rqs q'' 1) ex_bio = ELEVATOR_NO_MERGE)"
proof -
  define Q0 where "Q0 = ex_queue\<lparr>queue_head := [1]\<rparr>"
  define Q1 where "Q1 = (rq_set_flag 1 REQ_STARTED Q0)\<lparr>end_sector := 110, boundary_rq := None\<rparr>"
  have env: "env_keeps_mark ex_ops ex_ext 1"
    by (simp add: env_keeps_mark_def rq_marked_def ex_ops_def ex_ext_def)
  have prep: "prep_keeps_started ex_ext 1"
    by (simp add: prep_keeps_started_def ex_ext_def)
  have sel: "elv_next_request ex_ops ex_ext (Suc 0) Q0 = Inr (Q1, Some 1)"
    by (simp add: elv_next_request_start_def blk_sorted_rq_def rq_set_flag_def rq_end_sector_def
        Q1_def Q0_def ex_queue_def ex_ext_def ex_rq_def)
  have "\<exists>q''. elv_run ex_ops ex_ext (Suc 0) Q1 [Op_dequeue_request 1, Op_requeue_request 1] = Inr q''
      \<and> flags (rqs q'' 1) = {REQ_SOFTBARRIER, REQ_CMD}"
    by (simp add: elv_dequeue_request_def elv_requeue_request_def elv_requeue_account_def
        elv_insert_def elv_insert_unplug_def blk_queue_plugged_def blk_account_rq_def
        blk_rq_started_def blk_fs_request_def blk_sorted_rq_def rq_set_flag_def rq_clear_flag_def
        Let_def Q1_def Q0_def ex_queue_def ex_rq_def ex_ops_def)
  then obtain q'' where
    run: "elv_run ex_ops ex_ext (Suc 0) Q1 [Op_dequeue_request 1, Op_requeue_request 1] = Inr q''"
    and fl: "flags (rqs q'' 1) = {REQ_SOFTBARRIER, REQ_CMD}"
    by blast
  have adjacent: "elv_try_merge ex_rq ex_bio = ELEVATOR_BACK_MERGE"
    by (simp add: elv_try_merge_def elv_rq_merge_ok_def rq_mergeable_def RQ_NOMERGE_FLAGS_def
        blk_fs_request_def bio_data_dir_def rq_data_dir_def ex_rq_def ex_bio_def)
  from dispatched_never_merge_target [OF env prep sel] run
  have "REQ_STARTED \<in> flags (rqs Q1 1) \<and> elv_try_merge (rqs q'' 1) ex_bio = ELEVATOR_NO_MERGE"
    by blast
  with env prep adjacent sel run fl show ?thesis
    unfolding Q0_def by blast
qed

subsection \<open>Host starvation\<close>





















subsection \<open>Completion with sense data\<close>


lemma slog_set_sdev: "slog (set_sdev d sd w) = slog w"
  by (simp add: set_sdev_def)


















end
